theory Spec2Isabelle
  imports Complex_Main "HOL-Library.Word" "HOL-Library.Sublist" "HOL-Library.Log_Nat" "HOL-Library.AList"
begin

unbundle bit_operations_syntax

section \<open>Strings\<close>

text \<open>
  A JavaScript string is a sequence of UTF-16 code units. The literals of the source that
  are not ASCII are written out as their code units, with an English gloss beside them.
\<close>

type_synonym jsstring = "16 word list"

definition ascii :: "string \<Rightarrow> jsstring" where
  "ascii s = map of_char s"

text \<open>
  \<open>String.prototype.trim\<close> removes the code units of WhiteSpace and LineTerminator
  from both ends.
\<close>

definition is_js_whitespace :: "16 word \<Rightarrow> bool" where
  "is_js_whitespace c \<longleftrightarrow>
     c \<in> {0x0009, 0x000A, 0x000B, 0x000C, 0x000D, 0x0020, 0x00A0, 0x1680, 0x2028, 0x2029,
          0x202F, 0x205F, 0x3000, 0xFEFF} \<or> (0x2000 \<le> c \<and> c \<le> 0x200A)"

definition trim :: "jsstring \<Rightarrow> jsstring" where
  "trim s = rev (dropWhile is_js_whitespace (rev (dropWhile is_js_whitespace s)))"

text \<open>
  \<open>Number.prototype.toString\<close> on a non-negative integer below \<open>10^21\<close>: its
  decimal digits.
\<close>

fun decimal :: "nat \<Rightarrow> jsstring" where
  "decimal n = (if n < 10 then [0x30 + of_nat n] else decimal (n div 10) @ [0x30 + of_nat (n mod 10)])"

declare decimal.simps [simp del]

section \<open>String literals of the source\<close>

text \<open>Thrown by \<open>compressImage\<close> for a file over \<open>MAX_FILE_SIZE\<close>: "the image size must not exceed 5MB".\<close>

definition MSG_FILE_TOO_LARGE :: jsstring where
  "MSG_FILE_TOO_LARGE =
     [0x56FE, 0x7247, 0x5927, 0x5C0F, 0x4E0D, 0x80FD, 0x8D85, 0x8FC7] @ ascii '' 5MB''"

text \<open>"Cannot create the Canvas context."\<close>

definition MSG_NO_CANVAS_CONTEXT :: jsstring where
  "MSG_NO_CANVAS_CONTEXT =
     [0x65E0, 0x6CD5, 0x521B, 0x5EFA] @ ascii ''Canvas'' @ [0x4E0A, 0x4E0B, 0x6587]"

text \<open>"The image is still too large after compression, please use a smaller image."\<close>

definition MSG_STILL_TOO_LARGE :: jsstring where
  "MSG_STILL_TOO_LARGE =
     [0x538B, 0x7F29, 0x540E, 0x56FE, 0x7247, 0x4ECD, 0x7136, 0x8FC7, 0x5927, 0xFF0C,
     0x8BF7, 0x4F7F, 0x7528, 0x66F4, 0x5C0F, 0x7684, 0x56FE, 0x7247]"

text \<open>"Loading the image failed."\<close>

definition MSG_IMAGE_LOAD_FAILED :: jsstring where
  "MSG_IMAGE_LOAD_FAILED =
     [0x56FE, 0x7247, 0x52A0, 0x8F7D, 0x5931, 0x8D25]"

text \<open>"Reading the file failed."\<close>

definition MSG_FILE_READ_FAILED :: jsstring where
  "MSG_FILE_READ_FAILED =
     [0x6587, 0x4EF6, 0x8BFB, 0x53D6, 0x5931, 0x8D25]"

text \<open>"The format of the response returned by the API is invalid."\<close>

definition MSG_INVALID_FORMAT :: jsstring where
  "MSG_INVALID_FORMAT =
     ascii ''API '' @ [0x8FD4, 0x56DE, 0x7684, 0x54CD, 0x5E94, 0x683C, 0x5F0F, 0x65E0,
     0x6548]"

text \<open>"The model cannot handle this request, please retry."\<close>

definition MSG_MODEL_REFUSED :: jsstring where
  "MSG_MODEL_REFUSED =
     [0x6A21, 0x578B, 0x65E0, 0x6CD5, 0x5904, 0x7406, 0x8BE5, 0x8BF7, 0x6C42, 0xFF0C,
     0x8BF7, 0x91CD, 0x8BD5]"

text \<open>"Cannot connect to the server, please check the network connection."\<close>

definition MSG_NO_CONNECTION :: jsstring where
  "MSG_NO_CONNECTION =
     [0x65E0, 0x6CD5, 0x8FDE, 0x63A5, 0x5230, 0x670D, 0x52A1, 0x5668, 0xFF0C, 0x8BF7,
     0x68C0, 0x67E5, 0x7F51, 0x7EDC, 0x8FDE, 0x63A5]"

text \<open>"The request timed out, please retry."\<close>

definition MSG_TIMEOUT :: jsstring where
  "MSG_TIMEOUT =
     [0x8BF7, 0x6C42, 0x8D85, 0x65F6, 0xFF0C, 0x8BF7, 0x91CD, 0x8BD5]"

text \<open>"The API Key is invalid or has expired."\<close>

definition MSG_KEY_INVALID :: jsstring where
  "MSG_KEY_INVALID =
     ascii ''API Key '' @ [0x65E0, 0x6548, 0x6216, 0x5DF2, 0x8FC7, 0x671F]"

text \<open>"The API Key has no access permission."\<close>

definition MSG_KEY_FORBIDDEN :: jsstring where
  "MSG_KEY_FORBIDDEN =
     ascii ''API Key '' @ [0x65E0, 0x8BBF, 0x95EE, 0x6743, 0x9650]"

text \<open>"Requests are too frequent, please retry later."\<close>

definition MSG_TOO_FREQUENT :: jsstring where
  "MSG_TOO_FREQUENT =
     [0x8BF7, 0x6C42, 0x8FC7, 0x4E8E, 0x9891, 0x7E41, 0xFF0C, 0x8BF7, 0x7A0D, 0x540E,
     0x91CD, 0x8BD5]"

text \<open>"Server error, please retry later."\<close>

definition MSG_SERVER_ERROR :: jsstring where
  "MSG_SERVER_ERROR =
     [0x670D, 0x52A1, 0x5668, 0x9519, 0x8BEF, 0xFF0C, 0x8BF7, 0x7A0D, 0x540E, 0x91CD,
     0x8BD5]"

text \<open>"The request failed, please retry."\<close>

definition MSG_REQUEST_FAILED :: jsstring where
  "MSG_REQUEST_FAILED =
     [0x8BF7, 0x6C42, 0x5931, 0x8D25, 0xFF0C, 0x8BF7, 0x91CD, 0x8BD5]"

text \<open>"An unknown error occurred, please retry."\<close>

definition MSG_UNKNOWN_ERROR :: jsstring where
  "MSG_UNKNOWN_ERROR =
     [0x53D1, 0x751F, 0x672A, 0x77E5, 0x9519, 0x8BEF, 0xFF0C, 0x8BF7, 0x91CD, 0x8BD5]"

text \<open>"Please configure the API Key first."\<close>

definition MSG_CONFIGURE_KEY :: jsstring where
  "MSG_CONFIGURE_KEY =
     [0x8BF7, 0x5148, 0x914D, 0x7F6E] @ ascii '' API Key''"

text \<open>"No text could be extracted from the image, please make sure the image contains clear text."\<close>

definition MSG_NO_TEXT_EXTRACTED :: jsstring where
  "MSG_NO_TEXT_EXTRACTED =
     [0x672A, 0x80FD, 0x4ECE, 0x56FE, 0x7247, 0x4E2D, 0x63D0, 0x53D6, 0x5230, 0x6587,
     0x5B57, 0xFF0C, 0x8BF7, 0x786E, 0x4FDD, 0x56FE, 0x7247, 0x5305, 0x542B, 0x6E05,
     0x6670, 0x7684, 0x6587, 0x672C]"

text \<open>Set by the upload handler: "the file size must not exceed 20MB".\<close>

definition MSG_UPLOAD_TOO_LARGE :: jsstring where
  "MSG_UPLOAD_TOO_LARGE =
     [0x6587, 0x4EF6, 0x5927, 0x5C0F, 0x4E0D, 0x80FD, 0x8D85, 0x8FC7] @ ascii '' 20MB''"

text \<open>The \<open>fileName\<close> of a pasted-text translation: "text translation".\<close>

definition TEXT_TRANSLATION_NAME :: jsstring where
  "TEXT_TRANSLATION_NAME =
     [0x6587, 0x672C, 0x7FFB, 0x8BD1]"

text \<open>The system prompt of a translation request up to the interpolated target language: "You are a professional translator. Please translate the following text into".\<close>

definition TRANSLATE_PROMPT_HEAD :: jsstring where
  "TRANSLATE_PROMPT_HEAD =
     [0x4F60, 0x662F, 0x4E00, 0x4F4D, 0x4E13, 0x4E1A, 0x7FFB, 0x8BD1, 0x3002, 0x8BF7,
     0x5C06, 0x4EE5, 0x4E0B, 0x6587, 0x672C, 0x7FFB, 0x8BD1, 0x6210]"

text \<open>The rest of that prompt: six numbered instructions (keep the format, keep the layout, keep terms accurate, be natural, add no notes, return only the translation).\<close>

definition TRANSLATE_PROMPT_TAIL :: jsstring where
  "TRANSLATE_PROMPT_TAIL =
     [0x3002, 0x000A, 0x91CD, 0x8981, 0x63D0, 0x793A, 0xFF1A, 0x000A] @ ascii ''1. '' @
     [0x5FC5, 0x987B, 0x4E25, 0x683C, 0x4FDD, 0x6301, 0x539F, 0x6587, 0x7684, 0x6240,
     0x6709, 0x683C, 0x5F0F, 0xFF0C, 0x5305, 0x62EC, 0x6362, 0x884C, 0x3001, 0x7A7A,
     0x683C, 0x3001, 0x7F29, 0x8FDB, 0x7B49, 0x000A] @ ascii ''2. '' @ [0x4E0D, 0x8981,
     0x6539, 0x53D8, 0x539F, 0x6587, 0x7684, 0x6BB5, 0x843D, 0x7ED3, 0x6784, 0x548C,
     0x5E03, 0x5C40, 0x000A] @ ascii ''3. '' @ [0x4FDD, 0x6301, 0x4E13, 0x4E1A, 0x672F,
     0x8BED, 0x7684, 0x51C6, 0x786E, 0x6027, 0x000A] @ ascii ''4. '' @ [0x786E, 0x4FDD,
     0x7FFB, 0x8BD1, 0x81EA, 0x7136, 0x3001, 0x5730, 0x9053, 0x000A] @ ascii ''5. '' @
     [0x4E0D, 0x8981, 0x6DFB, 0x52A0, 0x4EFB, 0x4F55, 0x989D, 0x5916, 0x7684, 0x89E3,
     0x91CA, 0x6216, 0x6CE8, 0x91CA, 0x000A] @ ascii ''6. '' @ [0x76F4, 0x63A5, 0x8FD4,
     0x56DE, 0x7FFB, 0x8BD1, 0x7ED3, 0x679C, 0xFF0C, 0x4E0D, 0x8981, 0x5305, 0x542B,
     0x4EFB, 0x4F55, 0x5176, 0x4ED6, 0x5185, 0x5BB9]"

text \<open>The system prompt of the text-extraction request: "You are a professional OCR expert. Please extract the text in the image", with five numbered instructions.\<close>

definition OCR_PROMPT :: jsstring where
  "OCR_PROMPT =
     [0x4F60, 0x662F, 0x4E00, 0x4F4D, 0x4E13, 0x4E1A, 0x7684] @ ascii '' OCR '' @ [0x4E13,
     0x5BB6, 0x3002, 0x8BF7, 0x63D0, 0x53D6, 0x56FE, 0x7247, 0x4E2D, 0x7684, 0x6587,
     0x5B57, 0x3002, 0x000A, 0x91CD, 0x8981, 0x63D0, 0x793A, 0xFF1A, 0x000A] @ ascii
     ''1. '' @ [0x5FC5, 0x987B, 0x4E25, 0x683C, 0x4FDD, 0x6301, 0x539F, 0x6587, 0x7684,
     0x6240, 0x6709, 0x683C, 0x5F0F, 0xFF0C, 0x5305, 0x62EC, 0x6362, 0x884C, 0x3001,
     0x7A7A, 0x683C, 0x3001, 0x7F29, 0x8FDB, 0x7B49, 0x000A] @ ascii ''2. '' @ [0x4FDD,
     0x6301, 0x6BB5, 0x843D, 0x7ED3, 0x6784, 0x548C, 0x6587, 0x672C, 0x5E03, 0x5C40,
     0x000A] @ ascii ''3. '' @ [0x4E0D, 0x8981, 0x6DFB, 0x52A0, 0x4EFB, 0x4F55, 0x89E3,
     0x91CA, 0x6216, 0x4FEE, 0x6539, 0x000A] @ ascii ''4. '' @ [0x53EA, 0x8FD4, 0x56DE,
     0x63D0, 0x53D6, 0x7684, 0x539F, 0x59CB, 0x6587, 0x5B57, 0xFF0C, 0x4E0D, 0x8981,
     0x5305, 0x542B, 0x4EFB, 0x4F55, 0x5176, 0x4ED6, 0x5185, 0x5BB9, 0x000A] @ ascii
     ''5. '' @ [0x5982, 0x679C, 0x56FE, 0x7247, 0x4E2D, 0x6CA1, 0x6709, 0x6587, 0x5B57,
     0xFF0C, 0x8BF7, 0x8FD4, 0x56DE, 0x7A7A, 0x5B57, 0x7B26, 0x4E32]"

text \<open>The text part of the user message of the extraction request: "Please extract all the text in this image, keeping the original format:".\<close>

definition OCR_USER_TEXT :: jsstring where
  "OCR_USER_TEXT =
     [0x8BF7, 0x63D0, 0x53D6, 0x8FD9, 0x5F20, 0x56FE, 0x7247, 0x4E2D, 0x7684, 0x6240,
     0x6709, 0x6587, 0x5B57, 0xFF0C, 0x4FDD, 0x6301, 0x539F, 0x6709, 0x683C, 0x5F0F,
     0xFF1A]"


section \<open>The data model of TranslationContext\<close>

record Translation =
  id' :: jsstring
  fileName :: jsstring
  timestamp :: jsstring
  originalText :: jsstring
  translatedText :: jsstring
  targetLanguage :: jsstring

record GPTConfig =
  apiKey :: jsstring
  baseUrl :: jsstring

definition MAX_IMAGE_SIZE :: nat where
  "MAX_IMAGE_SIZE = 800"

definition MAX_FILE_SIZE :: nat where
  "MAX_FILE_SIZE = 5 * 1024 * 1024"

section \<open>The chat-completion endpoint\<close>

subsection \<open>Requests\<close>

text \<open>
  The body and headers that \<open>makeGPTRequest\<close> hands to \<open>axios.post\<close>. The content of
  a message is a string, or for the image request an array of a text part and an
  \<open>image_url\<close> part. The \<open>Content-Type\<close> header is the constant \<open>application/json\<close>,
  and the temperature is the decimal literal 0.3, kept as the fraction it denotes.
\<close>

datatype content_part = TextPart jsstring | ImageUrlPart jsstring

datatype message_content = Text jsstring | Parts "content_part list"

record chat_message =
  role :: jsstring
  msg_content :: message_content

record gpt_request =
  url :: jsstring
  authorization :: jsstring
  model :: jsstring
  messages :: "chat_message list"
  temperature :: rat
  max_tokens :: nat
  timeout :: nat

text \<open>The optional second argument \<open>options: { max_tokens?: number, model?: string }\<close>.\<close>

record request_options =
  opt_max_tokens :: "nat option"
  opt_model :: "jsstring option"

definition no_options :: request_options where
  "no_options = \<lparr>opt_max_tokens = None, opt_model = None\<rparr>"

text \<open>\<open>a || b\<close> on an optional string and on an optional number: the empty string and 0 are falsy.\<close>

definition string_or :: "jsstring option \<Rightarrow> jsstring \<Rightarrow> jsstring" where
  "string_or a b = (case a of None \<Rightarrow> b | Some s \<Rightarrow> if s = [] then b else s)"

definition number_or :: "nat option \<Rightarrow> nat \<Rightarrow> nat" where
  "number_or a b = (case a of None \<Rightarrow> b | Some n \<Rightarrow> if n = 0 then b else n)"

subsection \<open>Responses and failures\<close>

text \<open>
  The data of a fulfilled request, as far as \<open>validateGPTResponse\<close> reads it:
  \<open>response?.choices?.[0]?.message?.content\<close>. \<open>None\<close> stands for a link of the chain
  that is \<open>undefined\<close> or \<open>null\<close>; the content of a message is a string.
\<close>

record gpt_message =
  content :: "jsstring option"

record gpt_choice =
  message :: "gpt_message option"

record chat_completion =
  choices :: "gpt_choice list option"

text \<open>
  What the catch block of \<open>makeGPTRequest\<close> reads of a rejection: whether it is an axios
  error, its \<open>code\<close>, whether it has a \<open>response\<close>, the \<open>status\<close> of that response and
  the string \<open>response.data?.error?.message\<close>, with \<open>None\<close> where the chain gives
  \<open>undefined\<close> or \<open>null\<close>.
\<close>

record error_response =
  status :: nat
  error_message :: "jsstring option"

datatype rejection = AxiosError "jsstring option" "error_response option" | OtherError

datatype axios_outcome = Resolved "chat_completion option" | Rejected rejection

text \<open>Every value the code throws is an \<open>Error\<close> object; the model keeps its message.\<close>

datatype thrown = Error jsstring

subsection \<open>validateGPTResponse\<close>

definition first_content :: "chat_completion option \<Rightarrow> jsstring option" where
  "first_content response =
     (case response of None \<Rightarrow> None
      | Some r \<Rightarrow> (case choices r of None \<Rightarrow> None
        | Some cs \<Rightarrow> (case cs of [] \<Rightarrow> None
          | c # _ \<Rightarrow> (case message c of None \<Rightarrow> None
            | Some m \<Rightarrow> content m))))"

text \<open>
  The four reject patterns are unions of literal strings, searched anywhere in the content
  under the flag \<open>i\<close>: \<open>/I('m| am) sorry/i\<close>, \<open>/I cannot|I can't/i\<close>, \<open>/unable to/i\<close>,
  \<open>/not (able|allowed) to/i\<close>. Each is listed with its alternatives expanded.
  Without the flag \<open>u\<close>, ignoring case compares the upper-case forms of two code units,
  and a code unit from 128 on is never mapped below 128: a letter of these ASCII patterns is matched
  by its two ASCII cases only.
\<close>

definition rejectPatterns :: "jsstring list list" where
  "rejectPatterns =
     [[ascii ''I'' @ [0x0027] @ ascii ''m sorry'', ascii ''I am sorry''],
      [ascii ''I cannot'', ascii ''I can'' @ [0x0027] @ ascii ''t''],
      [ascii ''unable to''],
      [ascii ''not able to'', ascii ''not allowed to'']]"

definition canonicalize :: "16 word \<Rightarrow> 16 word" where
  "canonicalize c = (if 0x0061 \<le> c \<and> c \<le> 0x007A then c - 0x0020 else c)"

fun matches_at :: "jsstring \<Rightarrow> jsstring \<Rightarrow> bool" where
  "matches_at [] s = True"
| "matches_at (p # ps) [] = False"
| "matches_at (p # ps) (c # cs) = (canonicalize p = canonicalize c \<and> matches_at ps cs)"

fun matches_somewhere :: "jsstring \<Rightarrow> jsstring \<Rightarrow> bool" where
  "matches_somewhere p [] = matches_at p []"
| "matches_somewhere p (c # cs) = (matches_at p (c # cs) \<or> matches_somewhere p cs)"

definition regex_test :: "jsstring list \<Rightarrow> jsstring \<Rightarrow> bool" where
  "regex_test alternatives s = list_ex (\<lambda>p. matches_somewhere p s) alternatives"

definition validateGPTResponse :: "chat_completion option \<Rightarrow> thrown + jsstring" where
  "validateGPTResponse response =
     (case first_content response of
        None \<Rightarrow> Inl (Error MSG_INVALID_FORMAT)
      | Some c \<Rightarrow>
          if c = [] then Inl (Error MSG_INVALID_FORMAT)
          else if list_ex (\<lambda>pattern. regex_test pattern c) rejectPatterns
            then Inl (Error MSG_MODEL_REFUSED)
          else Inr c)"

subsection \<open>makeGPTRequest\<close>

text \<open>
  The network is an input of the model: the outcome of a POST may depend on the request
  and on the requests issued before it. A request is recorded in the log when it is
  issued, and \<open>await\<close> hands its outcome back before the caller goes on.
\<close>

type_synonym network = "gpt_request list \<Rightarrow> gpt_request \<Rightarrow> axios_outcome"

definition build_request :: "GPTConfig \<Rightarrow> chat_message list \<Rightarrow> request_options \<Rightarrow> gpt_request" where
  "build_request cfg msgs options =
     \<lparr>url = baseUrl cfg @ ascii ''/v1/chat/completions'',
      authorization = ascii ''Bearer '' @ apiKey cfg,
      model = string_or (opt_model options) (ascii ''gpt-4o-mini''),
      messages = msgs,
      temperature = 3 / 10,
      max_tokens = number_or (opt_max_tokens options) 2000,
      timeout = 30000\<rparr>"

text \<open>The catch block: the first test that holds decides the message.\<close>

definition makeGPTRequest_catch :: "rejection \<Rightarrow> thrown" where
  "makeGPTRequest_catch error =
     (case error of
        OtherError \<Rightarrow> Error MSG_UNKNOWN_ERROR
      | AxiosError code response \<Rightarrow>
          (case response of
             None \<Rightarrow> Error MSG_NO_CONNECTION
           | Some r \<Rightarrow>
               if code = Some (ascii ''ECONNABORTED'') then Error MSG_TIMEOUT
               else if status r = 401 then Error MSG_KEY_INVALID
               else if status r = 403 then Error MSG_KEY_FORBIDDEN
               else if status r = 429 then Error MSG_TOO_FREQUENT
               else if status r \<ge> 500 then Error MSG_SERVER_ERROR
               else Error (string_or (error_message r) MSG_REQUEST_FAILED)))"

definition makeGPTRequest ::
  "network \<Rightarrow> GPTConfig \<Rightarrow> chat_message list \<Rightarrow> request_options \<Rightarrow> gpt_request list
     \<Rightarrow> (thrown + chat_completion option) \<times> gpt_request list" where
  "makeGPTRequest post cfg msgs options issued =
     (let request = build_request cfg msgs options in
      (case post issued request of
         Resolved data \<Rightarrow> Inr data
       | Rejected error \<Rightarrow> Inl (makeGPTRequest_catch error),
       issued @ [request]))"

section \<open>Numbers\<close>

text \<open>
  A JavaScript number is an IEEE 754 double. The finite doubles are rationals, and the
  result of a division or a multiplication is the exact result rounded to 53 significant
  bits, to nearest, ties to even: \<open>fl\<close>. The numbers of \<open>compressImage\<close> lie between
  \<open>2^-23\<close> and \<open>2^32\<close>, and those of \<open>syncScroll\<close> are pixel counts and their
  quotients, far from overflow and from the subnormal range, which \<open>fl\<close> leaves out.
\<close>

definition floor_log2 :: "rat \<Rightarrow> int" where
  "floor_log2 x =
     (let (p, q) = quotient_of x;
          d = bitlen p - bitlen q
      in if 2 powi d \<le> x then d else d - 1)"

definition round_half_even :: "rat \<Rightarrow> int" where
  "round_half_even q =
     (let f = \<lfloor>q\<rfloor>; r = q - of_int f
      in if r < 1 / 2 then f else if 1 / 2 < r then f + 1 else if even f then f else f + 1)"

definition fl :: "rat \<Rightarrow> rat" where
  "fl x =
     (if x = 0 then 0
      else let ulp = 2 powi (floor_log2 \<bar>x\<bar> - 52)
           in sgn x * of_int (round_half_even (\<bar>x\<bar> / ulp)) * ulp)"

text \<open>
  Assigning a number to \<open>canvas.width\<close>, an \<open>unsigned long\<close> attribute, drops the
  fraction and reduces modulo \<open>2^32\<close>.
\<close>

definition to_unsigned_long :: "rat \<Rightarrow> nat" where
  "to_unsigned_long x = nat ((if x < 0 then \<lceil>x\<rceil> else \<lfloor>x\<rfloor>) mod 2 ^ 32)"

section \<open>The browser\<close>

text \<open>
  What the code reads of a \<open>File\<close>, and what the browser answers: the outcome of reading
  and decoding the file (\<open>reader.onerror\<close>, \<open>img.onerror\<close>, or \<open>img.onload\<close> with the
  width and height of the image in pixels, both below \<open>2^32\<close>), whether \<open>getContext('2d')\<close> gives a context, the data
  URL that \<open>toDataURL('image/jpeg', JPEG_QUALITY)\<close> gives for the image drawn on a canvas
  of a given width and height, the clock, and \<open>JSON.stringify\<close> on the two values that
  are stored.
\<close>

record File =
  name :: jsstring
  size' :: nat

datatype load_outcome = ReadFailed | LoadFailed | Loaded nat nat

record platform =
  post :: network
  load_image :: "File \<Rightarrow> load_outcome"
  has_2d_context :: bool
  toDataURL :: "File \<Rightarrow> nat \<Rightarrow> nat \<Rightarrow> jsstring"
  date_now :: nat
  iso_now :: jsstring
  stringify_translations :: "Translation list \<Rightarrow> jsstring"
  stringify_config :: "GPTConfig \<Rightarrow> jsstring"

subsection \<open>localStorage\<close>

text \<open>
  The store holds one string per key. \<open>setItem\<close> throws when the store would grow
  beyond its quota, counted in code units of keys and values.
\<close>

record storage =
  items :: "(jsstring \<times> jsstring) list"
  quota :: nat

definition getItem :: "storage \<Rightarrow> jsstring \<Rightarrow> jsstring option" where
  "getItem ls k = map_of (items ls) k"

definition usage :: "(jsstring \<times> jsstring) list \<Rightarrow> nat" where
  "usage kvs = sum_list (map (\<lambda>(k, v). length k + length v) kvs)"

definition setItem :: "storage \<Rightarrow> jsstring \<Rightarrow> jsstring \<Rightarrow> storage option" where
  "setItem ls k v =
     (let kvs = AList.update k v (items ls)
      in if usage kvs \<le> quota ls then Some (ls\<lparr>items := kvs\<rparr>) else None)"

text \<open>
  \<open>saveToStorage\<close> catches what \<open>setItem\<close> throws and writes it to the console: the
  store is then left as it was.
\<close>

definition saveToStorage :: "('a \<Rightarrow> jsstring) \<Rightarrow> jsstring \<Rightarrow> 'a \<Rightarrow> storage \<Rightarrow> storage" where
  "saveToStorage stringify key v ls =
     (case setItem ls key (stringify v) of Some ls' \<Rightarrow> ls' | None \<Rightarrow> ls)"

subsection \<open>compressImage\<close>

text \<open>
  \<open>MAX_IMAGE_SIZE / Math.max(width, height)\<close> is \<open>+Infinity\<close> for an image of width and
  height 0, and \<open>Math.min(1, +Infinity)\<close> is 1.
\<close>

definition image_scale :: "nat \<Rightarrow> nat \<Rightarrow> rat" where
  "image_scale width height =
     (let m = max width height
      in if m = 0 then 1 else min 1 (fl (of_nat MAX_IMAGE_SIZE / of_nat m)))"

definition canvas_size :: "nat \<Rightarrow> nat \<Rightarrow> nat \<times> nat" where
  "canvas_size w h =
     (let scale = image_scale w h;
          width = fl (of_nat w * scale);
          height = fl (of_nat h * scale)
      in (to_unsigned_long width, to_unsigned_long height))"

text \<open>\<open>Math.ceil((base64.length - 'data:image/jpeg;base64,'.length) * 0.75)\<close>\<close>

definition compressedSize :: "jsstring \<Rightarrow> int" where
  "compressedSize base64 = \<lceil>(of_int (int (length base64) - 23) :: rat) * (3 / 4)\<rceil>"

definition compressImage :: "platform \<Rightarrow> File \<Rightarrow> thrown + jsstring" where
  "compressImage env file =
     (if size' file > MAX_FILE_SIZE then Inl (Error MSG_FILE_TOO_LARGE)
      else case load_image env file of
        ReadFailed \<Rightarrow> Inl (Error MSG_FILE_READ_FAILED)
      | LoadFailed \<Rightarrow> Inl (Error MSG_IMAGE_LOAD_FAILED)
      | Loaded w h \<Rightarrow>
          (let (cw, ch) = canvas_size w h in
           if \<not> has_2d_context env then Inl (Error MSG_NO_CANVAS_CONTEXT)
           else let base64 = toDataURL env file cw ch in
             if compressedSize base64 > int MAX_FILE_SIZE then Inl (Error MSG_STILL_TOO_LARGE)
             else Inr base64))"

section \<open>TranslationProvider\<close>

text \<open>
  The state of the provider, the store, and the requests issued so far, oldest first.
\<close>

record world =
  translations' :: "Translation list"
  gptConfig :: GPTConfig
  localStorage :: storage
  issued :: "gpt_request list"

text \<open>
  A state setter is followed by the effect that depends on that state:
  \<open>saveToStorage('translations', translations)\<close> after \<open>setTranslations\<close> and
  \<open>saveToStorage('gptConfig', gptConfig)\<close> after \<open>setGPTConfig\<close>. Every update of the
  source builds a new array or object, so the effect runs after each one.
\<close>

definition setTranslations :: "platform \<Rightarrow> (Translation list \<Rightarrow> Translation list) \<Rightarrow> world \<Rightarrow> world" where
  "setTranslations env updater w =
     (let ts = updater (translations' w)
      in w\<lparr>translations' := ts,
           localStorage :=
             saveToStorage (stringify_translations env) (ascii ''translations'') ts (localStorage w)\<rparr>)"

definition setGPTConfig :: "platform \<Rightarrow> GPTConfig \<Rightarrow> world \<Rightarrow> world" where
  "setGPTConfig env cfg w =
     w\<lparr>gptConfig := cfg,
       localStorage :=
         saveToStorage (stringify_config env) (ascii ''gptConfig'') cfg (localStorage w)\<rparr>"

definition addTranslation :: "platform \<Rightarrow> Translation \<Rightarrow> world \<Rightarrow> world" where
  "addTranslation env translation = setTranslations env (\<lambda>prev. translation # prev)"

definition removeTranslation :: "platform \<Rightarrow> jsstring \<Rightarrow> world \<Rightarrow> world" where
  "removeTranslation env i = setTranslations env (\<lambda>prev. filter (\<lambda>t. id' t \<noteq> i) prev)"

text \<open>\<open>config.baseUrl.replace(/\/$/, '')\<close> removes one slash at the end of the string.\<close>

definition strip_final_slash :: "jsstring \<Rightarrow> jsstring" where
  "strip_final_slash s = (if s \<noteq> [] \<and> last s = 0x002F then butlast s else s)"

definition updateGPTConfig :: "platform \<Rightarrow> GPTConfig \<Rightarrow> world \<Rightarrow> world" where
  "updateGPTConfig env config =
     setGPTConfig env (config\<lparr>baseUrl := strip_final_slash (baseUrl config)\<rparr>)"

subsection \<open>The store and the state\<close>

text \<open>The store agrees with the state: each of the two keys holds the serialization of its value.\<close>

definition in_sync :: "platform \<Rightarrow> world \<Rightarrow> bool" where
  "in_sync env w \<longleftrightarrow>
     getItem (localStorage w) (ascii ''translations'') =
       Some (stringify_translations env (translations' w)) \<and>
     getItem (localStorage w) (ascii ''gptConfig'') = Some (stringify_config env (gptConfig w))"

subsection \<open>processText\<close>

definition translation_messages :: "jsstring \<Rightarrow> jsstring \<Rightarrow> chat_message list" where
  "translation_messages targetLanguage' text =
     [\<lparr>role = ascii ''system'',
       msg_content = Text (TRANSLATE_PROMPT_HEAD @ targetLanguage' @ TRANSLATE_PROMPT_TAIL)\<rparr>,
      \<lparr>role = ascii ''user'', msg_content = Text text\<rparr>]"

text \<open>
  The \<open>catch\<close> of \<open>processText\<close> and of \<open>processFile\<close> throws an \<open>Error\<close> again as it
  is, and every value thrown inside is one.
\<close>

definition processText :: "platform \<Rightarrow> jsstring \<Rightarrow> jsstring \<Rightarrow> world \<Rightarrow> (thrown + Translation) \<times> world" where
  "processText env text targetLanguage' w =
     (if apiKey (gptConfig w) = [] then (Inl (Error MSG_CONFIGURE_KEY), w)
      else case makeGPTRequest (post env) (gptConfig w)
                  (translation_messages targetLanguage' text) no_options (issued w) of
        (Inl e, reqs) \<Rightarrow> (Inl e, w\<lparr>issued := reqs\<rparr>)
      | (Inr result, reqs) \<Rightarrow>
          (case validateGPTResponse result of
             Inl e \<Rightarrow> (Inl e, w\<lparr>issued := reqs\<rparr>)
           | Inr translatedText' \<Rightarrow>
               (let translation =
                      \<lparr>id' = decimal (date_now env),
                       fileName = TEXT_TRANSLATION_NAME,
                       timestamp = iso_now env,
                       originalText = text,
                       translatedText = translatedText',
                       targetLanguage = targetLanguage'\<rparr>
                in (Inr translation, addTranslation env translation (w\<lparr>issued := reqs\<rparr>)))))"

subsection \<open>processFile\<close>

definition extraction_messages :: "jsstring \<Rightarrow> chat_message list" where
  "extraction_messages base64Image =
     [\<lparr>role = ascii ''system'', msg_content = Text OCR_PROMPT\<rparr>,
      \<lparr>role = ascii ''user'',
       msg_content = Parts [TextPart OCR_USER_TEXT, ImageUrlPart base64Image]\<rparr>]"

definition extractTextFromImage ::
  "network \<Rightarrow> GPTConfig \<Rightarrow> jsstring \<Rightarrow> gpt_request list \<Rightarrow> (thrown + jsstring) \<times> gpt_request list" where
  "extractTextFromImage net cfg base64Image reqs =
     (case makeGPTRequest net cfg (extraction_messages base64Image)
             \<lparr>opt_max_tokens = Some 1000, opt_model = Some (ascii ''gpt-4o'')\<rparr> reqs of
        (Inl e, reqs') \<Rightarrow> (Inl e, reqs')
      | (Inr result, reqs') \<Rightarrow> (validateGPTResponse result, reqs'))"

definition processFile :: "platform \<Rightarrow> File \<Rightarrow> jsstring \<Rightarrow> world \<Rightarrow> (thrown + Translation) \<times> world" where
  "processFile env file targetLanguage' w =
     (if apiKey (gptConfig w) = [] then (Inl (Error MSG_CONFIGURE_KEY), w)
      else case compressImage env file of
        Inl e \<Rightarrow> (Inl e, w)
      | Inr base64Image \<Rightarrow>
          (case extractTextFromImage (post env) (gptConfig w) base64Image (issued w) of
             (Inl e, reqs) \<Rightarrow> (Inl e, w\<lparr>issued := reqs\<rparr>)
           | (Inr originalText', reqs) \<Rightarrow>
               if trim originalText' = [] then (Inl (Error MSG_NO_TEXT_EXTRACTED), w\<lparr>issued := reqs\<rparr>)
               else (case makeGPTRequest (post env) (gptConfig w)
                           (translation_messages targetLanguage' originalText') no_options reqs of
                  (Inl e, reqs') \<Rightarrow> (Inl e, w\<lparr>issued := reqs'\<rparr>)
                | (Inr result, reqs') \<Rightarrow>
                    (case validateGPTResponse result of
                       Inl e \<Rightarrow> (Inl e, w\<lparr>issued := reqs'\<rparr>)
                     | Inr translatedText' \<Rightarrow>
                         (let translation =
                                \<lparr>id' = decimal (date_now env),
                                 fileName = name file,
                                 timestamp = iso_now env,
                                 originalText = originalText',
                                 translatedText = translatedText',
                                 targetLanguage = targetLanguage'\<rparr>
                          in (Inr translation,
                              addTranslation env translation (w\<lparr>issued := reqs'\<rparr>)))))))"

subsection \<open>The two requests of the pipeline\<close>

text \<open>The request that \<open>extractTextFromImage\<close> builds, and the translation request.\<close>

definition extraction_request :: "GPTConfig \<Rightarrow> jsstring \<Rightarrow> gpt_request" where
  "extraction_request cfg base64Image =
     build_request cfg (extraction_messages base64Image)
       \<lparr>opt_max_tokens = Some 1000, opt_model = Some (ascii ''gpt-4o'')\<rparr>"

definition translation_request :: "GPTConfig \<Rightarrow> jsstring \<Rightarrow> jsstring \<Rightarrow> gpt_request" where
  "translation_request cfg targetLanguage' text =
     build_request cfg (translation_messages targetLanguage' text) no_options"

section \<open>The upload handler\<close>

text \<open>
  \<open>onDrop\<close> of the Upload component takes the first accepted file, refuses it above
  20 MB, and otherwise runs \<open>processFile\<close>: it shows the message of a thrown \<open>Error\<close>, or
  navigates to the new translation.
\<close>

record upload_state =
  error :: "jsstring option"
  isProcessing :: bool
  location :: "jsstring option"

definition onDrop ::
  "platform \<Rightarrow> File list \<Rightarrow> jsstring \<Rightarrow> upload_state \<times> world \<Rightarrow> upload_state \<times> world" where
  "onDrop env acceptedFiles targetLanguage' s =
     (case acceptedFiles of
        [] \<Rightarrow> s
      | file # _ \<Rightarrow>
          (let (ui, w) = s in
           if size' file > 20 * 1024 * 1024 then (ui\<lparr>error := Some MSG_UPLOAD_TOO_LARGE\<rparr>, w)
           else case processFile env file targetLanguage' w of
             (Inl (Error m), w') \<Rightarrow> (ui\<lparr>error := Some m, isProcessing := False\<rparr>, w')
           | (Inr translation, w') \<Rightarrow>
               (ui\<lparr>error := None, isProcessing := False,
                   location := Some (ascii ''/translation/'' @ id' translation)\<rparr>, w')))"

section \<open>The translation viewer\<close>

text \<open>
  The result of a division or of a multiplication of doubles need not be finite: a
  quotient by zero is \<open>NaN\<close> for \<open>0 / 0\<close> and an infinity otherwise, and the zero that
  the difference of two equal integers gives is positive. The left operand of the
  multiplication is such a result, the right one a finite number.
\<close>

datatype js_number = Finite rat | PosInfinity | NegInfinity | NaN

definition js_divide :: "rat \<Rightarrow> rat \<Rightarrow> js_number" where
  "js_divide a b =
     (if b = 0 then (if a = 0 then NaN else if 0 < a then PosInfinity else NegInfinity)
      else Finite (fl (a / b)))"

definition js_times :: "js_number \<Rightarrow> rat \<Rightarrow> js_number" where
  "js_times x b =
     (case x of
        Finite a \<Rightarrow> Finite (fl (a * b))
      | PosInfinity \<Rightarrow> (if b = 0 then NaN else if 0 < b then PosInfinity else NegInfinity)
      | NegInfinity \<Rightarrow> (if b = 0 then NaN else if 0 < b then NegInfinity else PosInfinity)
      | NaN \<Rightarrow> NaN)"

text \<open>
  What \<open>syncScroll\<close> reads and writes of a \<open>pre\<close> element: \<open>scrollTop\<close>, a number, and
  the integers \<open>scrollHeight\<close> and \<open>clientHeight\<close>. Their difference is the scroll range
  of the element.
\<close>

record pre_element =
  scrollTop :: rat
  scrollHeight :: int
  clientHeight :: int

definition scroll_range :: "pre_element \<Rightarrow> rat" where
  "scroll_range e = of_int (scrollHeight e - clientHeight e)"

text \<open>
  Assigning to \<open>scrollTop\<close>: a value that is not finite counts as 0, and the element
  scrolls to the nearest position it has, from 0 to its scroll range.
\<close>

definition set_scrollTop :: "js_number \<Rightarrow> pre_element \<Rightarrow> pre_element" where
  "set_scrollTop y e =
     e\<lparr>scrollTop := (case y of Finite v \<Rightarrow> min (max v 0) (max 0 (scroll_range e)) | _ \<Rightarrow> 0)\<rparr>"

text \<open>The relative scroll position of an element, the \<open>percentage\<close> of \<open>syncScroll\<close>.\<close>

definition relative_position :: "pre_element \<Rightarrow> js_number" where
  "relative_position e = js_divide (scrollTop e) (scroll_range e)"

definition syncScroll :: "pre_element \<Rightarrow> pre_element \<Rightarrow> pre_element" where
  "syncScroll sourceRef targetRef =
     (let percentage = relative_position sourceRef
      in set_scrollTop (js_times percentage (scroll_range targetRef)) targetRef)"

text \<open>The two panes and the two scroll listeners that the effect of the viewer adds.\<close>

record viewer =
  originalElement :: pre_element
  translatedElement :: pre_element

definition handleOriginalScroll :: "viewer \<Rightarrow> viewer" where
  "handleOriginalScroll v =
     v\<lparr>translatedElement := syncScroll (originalElement v) (translatedElement v)\<rparr>"

definition handleTranslatedScroll :: "viewer \<Rightarrow> viewer" where
  "handleTranslatedScroll v =
     v\<lparr>originalElement := syncScroll (translatedElement v) (originalElement v)\<rparr>"

section \<open>JSON.stringify on the stored values\<close>

text \<open>
  The theorems below hold for every serializer the platform may have. The worked
  instances run this one: \<open>JSON.stringify\<close> on an array of translations and on a
  configuration, whose fields are all strings. A string is quoted with the escapes of
  \<open>QuoteJSONString\<close>: the short escapes, \<open>\u00xx\<close> for the other control characters,
  and \<open>\udxxx\<close> for a surrogate that has no partner.
\<close>

definition hex_digit :: "16 word \<Rightarrow> 16 word" where
  "hex_digit d = (if d < 10 then 0x0030 + d else 0x0061 + (d - 10))"

definition unicode_escape :: "16 word \<Rightarrow> jsstring" where
  "unicode_escape c =
     [0x005C, 0x0075, hex_digit (drop_bit 12 c AND 0xF), hex_digit (drop_bit 8 c AND 0xF),
      hex_digit (drop_bit 4 c AND 0xF), hex_digit (c AND 0xF)]"

definition is_high_surrogate :: "16 word \<Rightarrow> bool" where
  "is_high_surrogate c \<longleftrightarrow> 0xD800 \<le> c \<and> c \<le> 0xDBFF"

definition is_low_surrogate :: "16 word \<Rightarrow> bool" where
  "is_low_surrogate c \<longleftrightarrow> 0xDC00 \<le> c \<and> c \<le> 0xDFFF"

definition escape_unit :: "16 word \<Rightarrow> jsstring" where
  "escape_unit c =
     (if c = 0x0008 then [0x005C, 0x0062]
      else if c = 0x0009 then [0x005C, 0x0074]
      else if c = 0x000A then [0x005C, 0x006E]
      else if c = 0x000C then [0x005C, 0x0066]
      else if c = 0x000D then [0x005C, 0x0072]
      else if c = 0x0022 then [0x005C, 0x0022]
      else if c = 0x005C then [0x005C, 0x005C]
      else if c < 0x0020 \<or> is_high_surrogate c \<or> is_low_surrogate c then unicode_escape c
      else [c])"

fun escape_units :: "jsstring \<Rightarrow> jsstring" where
  "escape_units [] = []"
| "escape_units [c] = escape_unit c"
| "escape_units (c # d # s) =
     (if is_high_surrogate c \<and> is_low_surrogate d then c # d # escape_units s
      else escape_unit c @ escape_units (d # s))"

definition json_string :: "jsstring \<Rightarrow> jsstring" where
  "json_string s = [0x0022] @ escape_units s @ [0x0022]"

definition json_property :: "string \<Rightarrow> jsstring \<Rightarrow> jsstring" where
  "json_property k v = json_string (ascii k) @ ascii '':'' @ json_string v"

fun join_comma :: "jsstring list \<Rightarrow> jsstring" where
  "join_comma [] = []"
| "join_comma [s] = s"
| "join_comma (s # t # ss) = s @ ascii '','' @ join_comma (t # ss)"

definition json_of_translation :: "Translation \<Rightarrow> jsstring" where
  "json_of_translation t =
     ascii ''{'' @
     join_comma
       [json_property ''id'' (id' t), json_property ''fileName'' (fileName t),
        json_property ''timestamp'' (timestamp t), json_property ''originalText'' (originalText t),
        json_property ''translatedText'' (translatedText t),
        json_property ''targetLanguage'' (targetLanguage t)] @
     ascii ''}''"

definition json_of_translations :: "Translation list \<Rightarrow> jsstring" where
  "json_of_translations ts = ascii ''['' @ join_comma (map json_of_translation ts) @ ascii '']''"

definition json_of_config :: "GPTConfig \<Rightarrow> jsstring" where
  "json_of_config c =
     ascii ''{'' @
     join_comma [json_property ''apiKey'' (apiKey c), json_property ''baseUrl'' (baseUrl c)] @
     ascii ''}''"

section \<open>Worked instances\<close>

text \<open>
  A configuration with a key and one without, servers that answer or refuse, an image of
  1000 by 333 pixels, and stores with room and with little room.
\<close>

definition example_config :: GPTConfig where
  "example_config = \<lparr>apiKey = ascii ''sk-1'', baseUrl = ascii ''https://api.example.org''\<rparr>"

definition keyless_config :: GPTConfig where
  "keyless_config = \<lparr>apiKey = [], baseUrl = ascii ''https://api.example.org''\<rparr>"

definition reply :: "jsstring \<Rightarrow> axios_outcome" where
  "reply s = Resolved (Some \<lparr>choices = Some [\<lparr>message = Some \<lparr>content = Some s\<rparr>\<rparr>]\<rparr>)"

text \<open>The first request is answered with the text of the image, the later ones with its translation.\<close>

definition answering_network :: network where
  "answering_network reqs request = (if reqs = [] then reply (ascii ''Hello'') else reply (ascii ''Bonjour''))"

definition translating_network :: network where
  "translating_network reqs request = reply (ascii ''Bonjour'')"

text \<open>A server that answers 401, and no answer at all.\<close>

definition unauthorized_network :: network where
  "unauthorized_network reqs request =
     Rejected (AxiosError (Some (ascii ''ERR_BAD_REQUEST'')) (Some \<lparr>status = 401, error_message = None\<rparr>))"

definition unreachable_network :: network where
  "unreachable_network reqs request = Rejected (AxiosError (Some (ascii ''ERR_NETWORK'')) None)"

definition example_image :: "File \<Rightarrow> load_outcome" where
  "example_image file = Loaded 1000 333"

definition example_data_url :: "File \<Rightarrow> nat \<Rightarrow> nat \<Rightarrow> jsstring" where
  "example_data_url file w h = ascii ''data:image/jpeg;base64,'' @ decimal w @ ascii ''x'' @ decimal h"

definition example_platform :: "network \<Rightarrow> platform" where
  "example_platform net =
     \<lparr>post = net, load_image = example_image, has_2d_context = True,
      toDataURL = example_data_url, date_now = 1700000000000,
      iso_now = ascii ''2023-11-14T22:13:20.000Z'',
      stringify_translations = json_of_translations, stringify_config = json_of_config\<rparr>"

definition small_file :: File where
  "small_file = \<lparr>name = ascii ''scan.png'', size' = 1000\<rparr>"

definition six_megabyte_file :: File where
  "six_megabyte_file = \<lparr>name = ascii ''photo.png'', size' = 6 * 1024 * 1024\<rparr>"

definition roomy_storage :: storage where
  "roomy_storage = \<lparr>items = [], quota = 5000000\<rparr>"

text \<open>A store that holds an empty history and the configuration, and one with little room left.\<close>

definition synced_storage :: storage where
  "synced_storage =
     \<lparr>items = [(ascii ''translations'', ascii ''[]''),
               (ascii ''gptConfig'', json_of_config example_config)],
      quota = 5000000\<rparr>"

definition nearly_full_storage :: storage where
  "nearly_full_storage =
     \<lparr>items = [(ascii ''translations'', ascii ''[]''),
               (ascii ''gptConfig'', json_of_config example_config)],
      quota = 100\<rparr>"

definition example_world :: "GPTConfig \<Rightarrow> storage \<Rightarrow> world" where
  "example_world cfg ls = \<lparr>translations' = [], gptConfig = cfg, localStorage = ls, issued = []\<rparr>"

definition example_translation :: "jsstring \<Rightarrow> Translation" where
  "example_translation i =
     \<lparr>id' = i, fileName = TEXT_TRANSLATION_NAME, timestamp = ascii ''2023-11-14T22:13:20.000Z'',
      originalText = ascii ''Hello'', translatedText = ascii ''Bonjour'',
      targetLanguage = ascii ''fr''\<rparr>"

definition history_world :: world where
  "history_world =
     \<lparr>translations' = [example_translation (ascii ''1''), example_translation (ascii ''2'')],
      gptConfig = example_config, localStorage = roomy_storage, issued = []\<rparr>"

definition example_file_translation :: Translation where
  "example_file_translation =
     \<lparr>id' = ascii ''1700000000000'', fileName = ascii ''scan.png'',
      timestamp = ascii ''2023-11-14T22:13:20.000Z'', originalText = ascii ''Hello'',
      translatedText = ascii ''Bonjour'', targetLanguage = ascii ''fr''\<rparr>"

definition example_text_translation :: Translation where
  "example_text_translation =
     \<lparr>id' = ascii ''1700000000000'', fileName = TEXT_TRANSLATION_NAME,
      timestamp = ascii ''2023-11-14T22:13:20.000Z'', originalText = ascii ''Hello'',
      translatedText = ascii ''Bonjour'', targetLanguage = ascii ''fr''\<rparr>"

definition slash_config :: GPTConfig where
  "slash_config = \<lparr>apiKey = ascii ''sk-2'', baseUrl = ascii ''https://api.example.org/''\<rparr>"

definition idle_upload :: upload_state where
  "idle_upload = \<lparr>error = None, isProcessing = False, location = None\<rparr>"

text \<open>
  Panes of 400 pixels: one whose text fits, one scrolled by 50 of 100 pixels, one scrolled by
  150 of 300, one scrolled by 1 of 10, and one with a scroll range of 3 pixels.
\<close>

definition fitting_pane :: pre_element where
  "fitting_pane = \<lparr>scrollTop = 0, scrollHeight = 400, clientHeight = 400\<rparr>"

definition scrolled_pane :: pre_element where
  "scrolled_pane = \<lparr>scrollTop = 50, scrollHeight = 500, clientHeight = 400\<rparr>"

definition halfway_pane :: pre_element where
  "halfway_pane = \<lparr>scrollTop = 150, scrollHeight = 700, clientHeight = 400\<rparr>"

definition tenth_pane :: pre_element where
  "tenth_pane = \<lparr>scrollTop = 1, scrollHeight = 410, clientHeight = 400\<rparr>"

definition short_pane :: pre_element where
  "short_pane = \<lparr>scrollTop = 0, scrollHeight = 403, clientHeight = 400\<rparr>"

definition fitting_viewer :: viewer where
  "fitting_viewer = \<lparr>originalElement = fitting_pane, translatedElement = scrolled_pane\<rparr>"

definition halfway_viewer :: viewer where
  "halfway_viewer = \<lparr>originalElement = halfway_pane, translatedElement = scrolled_pane\<rparr>"

section \<open>Rounding\<close>

text \<open>
  The exponent that \<open>floor_log2\<close> computes is the right one, so \<open>fl\<close> rounds to 53
  significant bits: the error is at most \<open>2^-53\<close> of the value (\<open>2^53\<close> is
  9007199254740992), and an integer below \<open>2^53\<close> is not changed.
\<close>

lemma powi_less_cancel:
  assumes "(2::rat) powi a < 2 powi b"
  shows "a < b"
proof (rule ccontr)
  assume "\<not> a < b"
  then have "b \<le> a" by simp
  then have "(2::rat) powi b \<le> 2 powi a" by (intro power_int_increasing) simp_all
  with assms show False by simp
qed

lemma bitlen_powi:
  assumes "0 < p"
  shows "(2::rat) powi (bitlen p - 1) \<le> of_int p \<and> of_int p < (2::rat) powi bitlen p"
proof -
  from bitlen_bounds [OF assms]
  have lo: "2 ^ nat (bitlen p - 1) \<le> p" and hi: "p < 2 ^ nat (bitlen p)" by simp_all
  have pos: "0 < bitlen p" using hi assms by (cases "0 < bitlen p") auto
  have "(of_int (2 ^ nat (bitlen p - 1)) :: rat) \<le> of_int p" using lo by (simp only: of_int_le_iff)
  moreover have "(of_int p :: rat) < of_int (2 ^ nat (bitlen p))" using hi by (simp only: of_int_less_iff)
  ultimately show ?thesis using pos by (simp add: power_int_def)
qed

lemma floor_log2_bounds:
  assumes "0 < x"
  shows "2 powi floor_log2 x \<le> x \<and> x < 2 powi (floor_log2 x + 1)"
proof -
  obtain p q where pq: "quotient_of x = (p, q)" by (cases "quotient_of x")
  have q: "0 < q" using quotient_of_denom_pos [OF pq] .
  have x: "x = of_int p / of_int q" using quotient_of_div [OF pq] .
  have p: "0 < p" using assms q x by (simp add: zero_less_divide_iff)
  define d where "d = bitlen p - bitlen q"
  note bp = bitlen_powi [OF p] and bq = bitlen_powi [OF q]
  have "x < 2 powi bitlen p / 2 powi (bitlen q - 1)"
    unfolding x using bp bq p q by (intro frac_less) simp_all
  also have "\<dots> = 2 powi (d + 1)"
    by (simp add: d_def power_int_diff [symmetric] algebra_simps)
  finally have up: "x < 2 powi (d + 1)" .
  have "2 powi (bitlen p - 1) / 2 powi bitlen q \<le> x"
    unfolding x using bp bq p q by (intro frac_le) simp_all
  moreover have "2 powi (bitlen p - 1) / 2 powi bitlen q = (2::rat) powi (d - 1)"
    by (simp add: d_def power_int_diff [symmetric] algebra_simps)
  ultimately have lo: "2 powi (d - 1) \<le> x" by simp
  have e: "floor_log2 x = (if 2 powi d \<le> x then d else d - 1)"
    by (simp add: floor_log2_def pq d_def Let_def)
  show ?thesis
  proof (cases "2 powi d \<le> x")
    case True
    with e up show ?thesis by simp
  next
    case False
    with e lo show ?thesis by simp
  qed
qed

lemma round_half_even_error: "\<bar>of_int (round_half_even q) - q\<bar> \<le> 1 / 2"
proof -
  have "of_int \<lfloor>q\<rfloor> \<le> q" "q < of_int \<lfloor>q\<rfloor> + 1" by linarith+
  then show ?thesis
    unfolding round_half_even_def Let_def by (auto simp: abs_le_iff)
qed

lemma round_half_even_of_int [simp]: "round_half_even (of_int n) = n"
  by (simp add: round_half_even_def)

lemma fl_pos:
  assumes "0 < x"
  shows "fl x = of_int (round_half_even (x / 2 powi (floor_log2 x - 52))) * 2 powi (floor_log2 x - 52)"
  using assms by (simp add: fl_def Let_def)

lemma fl_error:
  assumes "0 < x"
  shows "\<bar>fl x - x\<bar> \<le> x / 2 ^ 53"
proof -
  define e where "e = floor_log2 x"
  define ulp :: rat where "ulp = 2 powi (e - 52)"
  have ulp: "0 < ulp" by (simp add: ulp_def)
  have b: "2 powi e \<le> x" using floor_log2_bounds [OF assms] by (simp add: e_def)
  have "fl x - x = (of_int (round_half_even (x / ulp)) - x / ulp) * ulp"
    using ulp by (simp add: fl_pos [OF assms] e_def ulp_def algebra_simps)
  then have "\<bar>fl x - x\<bar> = \<bar>of_int (round_half_even (x / ulp)) - x / ulp\<bar> * ulp"
    using ulp by (simp add: abs_mult)
  also have "\<dots> \<le> (1 / 2) * ulp"
    using round_half_even_error [of "x / ulp"] ulp by (intro mult_right_mono) simp_all
  also have "\<dots> = 2 powi e / 2 ^ 53"
    by (simp add: ulp_def power_int_diff)
  also have "\<dots> \<le> x / 2 ^ 53" using b by (simp add: divide_right_mono)
  finally show ?thesis .
qed

lemma fl_unique:
  assumes "2 powi e \<le> x" and "x < 2 powi (e + 1)"
  shows "fl x = of_int (round_half_even (x / 2 powi (e - 52))) * 2 powi (e - 52)"
proof -
  have pos: "0 < x" using assms(1) by (rule less_le_trans [rotated]) simp
  note b = floor_log2_bounds [OF pos]
  have "2 powi e < (2::rat) powi (floor_log2 x + 1)" using assms(1) b by linarith
  then have 1: "e < floor_log2 x + 1" by (rule powi_less_cancel)
  have "2 powi floor_log2 x < (2::rat) powi (e + 1)" using assms(2) b by linarith
  then have 2: "floor_log2 x < e + 1" by (rule powi_less_cancel)
  from 1 2 have "floor_log2 x = e" by simp
  then show ?thesis by (simp add: fl_pos [OF pos])
qed

lemma fl_of_int:
  assumes "0 < n" and "n < 2 ^ 53"
  shows "fl (of_int n) = of_int n"
proof -
  define e where "e = floor_log2 (of_int n)"
  have pos: "(0::rat) < of_int n" using assms by simp
  have "2 powi e \<le> (of_int n :: rat)" using floor_log2_bounds [OF pos] by (simp add: e_def)
  also have "(of_int n :: rat) < 2 powi 53" using assms(2) 
    by (metis of_int_less_iff of_int_numeral of_int_power power_int_numeral)
  finally have "e < 53" by (rule powi_less_cancel)
  then have "0 \<le> 52 - e" by simp
  then obtain k where k: "52 - e = int k" using nonneg_int_cases by blast
  have "(of_int n :: rat) / 2 powi (e - 52) = of_int n * 2 powi (52 - e)"
    by (simp add: power_int_diff)
  also have "\<dots> = of_int (n * 2 ^ k)" by (simp add: k power_int_of_nat)
  finally have "round_half_even (of_int n / 2 powi (e - 52)) = n * 2 ^ k" 
    by (simp only: round_half_even_of_int)
  then have "fl (of_int n) = of_int (n * 2 ^ k) * 2 powi (e - 52)"
    by (simp add: fl_pos [OF pos] e_def)
  also have "\<dots> = of_int n * (2 powi (52 - e) * 2 powi (e - 52))"
    by (simp add: k power_int_of_nat)
  also have "\<dots> = of_int n" by (simp add: power_int_add [symmetric])
  finally show ?thesis .
qed

lemma fl_zero [simp]: "fl 0 = 0"
  by (simp add: fl_def)

lemma fl_one [simp]: "fl 1 = 1"
  using fl_of_int [of 1] by simp

lemma fl_of_nat:
  assumes "x < 2 ^ 53"
  shows "fl (of_nat x) = of_nat x"
proof (cases "x = 0")
  case True
  then show ?thesis by simp
next
  case False
  then have "0 < int x" by simp
  moreover have "int x < int (2 ^ 53)" using assms by (simp only: of_nat_less_iff)
  then have "int x < 2 ^ 53" by simp
  ultimately have "fl (of_int (int x)) = of_int (int x)" by (rule fl_of_int)
  then show ?thesis by simp
qed

lemma fl_bounds:
  assumes "0 < x"
  shows "x - x / 9007199254740992 \<le> fl x" and "fl x \<le> x + x / 9007199254740992"
proof -
  have "(2::rat) ^ 53 = 9007199254740992" by simp
  with fl_error [OF assms] have "\<bar>fl x - x\<bar> \<le> x / 9007199254740992" by (simp only:)
  then have "fl x - x \<le> x / 9007199254740992" "- (fl x - x) \<le> x / 9007199254740992"
    by (simp_all only: abs_le_iff)
  then show "x - x / 9007199254740992 \<le> fl x" and "fl x \<le> x + x / 9007199254740992"
    by linarith+
qed

lemma to_unsigned_long_floor:
  assumes "0 \<le> p" and "p < 2 ^ 32"
  shows "to_unsigned_long p = nat \<lfloor>p\<rfloor>"
proof -
  have "0 \<le> \<lfloor>p\<rfloor>" using assms(1) by simp
  moreover have "\<lfloor>p\<rfloor> < 2 ^ 32" using assms(2) by (simp add: floor_less_iff)
  ultimately show ?thesis using assms(1) by (simp add: to_unsigned_long_def)
qed

text \<open>
  One side of the image, \<open>x\<close>, scaled by the factor that the longest side \<open>m\<close> gives:
  unchanged when \<open>m\<close> is at most 800, and otherwise the exact product \<open>800 * x / m\<close>
  up to two roundings and the truncation (\<open>2^42\<close> is 4398046511104).
\<close>

lemma scaled_side_small:
  assumes "x \<le> m" and "m \<le> 800"
  shows "(if m = 0 then 1 else min 1 (fl (800 / of_nat m))) = (1::rat)"
    and "to_unsigned_long (fl (of_nat x * (if m = 0 then 1 else min 1 (fl (800 / of_nat m))))) = x"
proof -
  show s: "(if m = 0 then 1 else min 1 (fl (800 / of_nat m))) = (1::rat)"
  proof (cases "m = 0 \<or> m = 800")
    case True
    then show ?thesis by auto
  next
    case False
    with assms(2) have m: "0 < m" "m \<le> 799" by simp_all
    define q :: rat where "q = 800 / of_nat m"
    have "(of_nat m :: rat) \<le> of_nat 799" using m(2) by (rule of_nat_mono)
    then have "(of_nat m :: rat) \<le> 799" by simp
    then have "800 / 799 \<le> q" using m(1) unfolding q_def by (intro divide_left_mono) simp_all
    moreover have "q - q / 9007199254740992 \<le> fl q" using m(1) by (intro fl_bounds) (simp add: q_def)
    ultimately have "1 \<le> fl q" by linarith
    then show ?thesis using m(1) by (simp add: q_def)
  qed
  have "x \<le> 800" using assms by simp
  then have x: "x < 2 ^ 53" by simp
  have "(of_nat x :: rat) \<le> of_nat 800" using \<open>x \<le> 800\<close> by (rule of_nat_mono)
  then have "(of_nat x :: rat) < 2 ^ 32" by simp
  then have "to_unsigned_long (of_nat x) = x"
    by (simp add: to_unsigned_long_floor)
  then show "to_unsigned_long (fl (of_nat x * (if m = 0 then 1 else min 1 (fl (800 / of_nat m))))) = x"
    unfolding s by (simp add: fl_of_nat [OF x])
qed

lemma scaled_side_large:
  assumes "x \<le> m" and "800 < m"
  defines "s \<equiv> fl (800 / of_nat m)"
  defines "p \<equiv> fl (of_nat x * s)"
  shows "(if m = 0 then 1 else min 1 (fl (800 / of_nat m))) = s"
    and "to_unsigned_long p = nat \<lfloor>p\<rfloor>"
    and "nat \<lfloor>p\<rfloor> \<le> 800"
    and "nat \<lfloor>p\<rfloor> \<le> x"
    and "\<bar>of_nat (nat \<lfloor>p\<rfloor>) - 800 * of_nat x / of_nat m\<bar> < (1 + 1 / 4398046511104 :: rat)"
proof -
  define q :: rat where "q = 800 / of_nat m"
  define v :: rat where "v = of_nat x * q"
  define y :: rat where "y = of_nat x * s"
  have "801 \<le> m" using assms(2) by simp
  then have "(of_nat 801 :: rat) \<le> of_nat m" by (rule of_nat_mono)
  then have m: "(801 :: rat) \<le> of_nat m" by simp
  have q0: "0 < q" using m by (simp add: q_def)
  have q1: "q \<le> 800 / 801" unfolding q_def using m by (intro divide_left_mono) simp_all
  have sb: "q - q / 9007199254740992 \<le> s" "s \<le> q + q / 9007199254740992"
    unfolding s_def q_def [symmetric] using fl_bounds [OF q0] by simp_all
  have s0: "0 < s" using sb(1) q0 by linarith
  have s1: "s < 1" using sb(2) q1 by linarith
  show scale: "(if m = 0 then 1 else min 1 (fl (800 / of_nat m))) = s"
    using assms(2) s1 by (simp add: s_def)
  have xm: "(of_nat x :: rat) \<le> of_nat m" using assms(1) by (rule of_nat_mono)
  have v800: "v \<le> 800"
  proof -
    have "v = 800 * (of_nat x / of_nat m)" by (simp add: v_def q_def)
    also have "\<dots> \<le> 800 * 1" using xm m by (intro mult_left_mono) simp_all
    finally show ?thesis by simp
  qed
  have vx: "v \<le> of_nat x * (800 / 801)"
    unfolding v_def using q1 by (intro mult_left_mono) simp_all
  have v0: "0 \<le> v" using q0 by (simp add: v_def)
  have sq: "\<bar>s - q\<bar> \<le> q / 9007199254740992" using sb by (simp only: abs_le_iff) linarith
  have "\<bar>y - v\<bar> = of_nat x * \<bar>s - q\<bar>"
    by (simp add: y_def v_def right_diff_distrib [symmetric] abs_mult)
  also have "\<dots> \<le> of_nat x * (q / 9007199254740992)"
    using sq by (intro mult_left_mono) simp_all
  also have "\<dots> = v / 9007199254740992" by (simp add: v_def)
  finally have "\<bar>y - v\<bar> \<le> v / 9007199254740992" .
  then have "y - v \<le> v / 9007199254740992" "- (y - v) \<le> v / 9007199254740992"
    by (simp_all only: abs_le_iff)
  then have yb: "v - v / 9007199254740992 \<le> y" "y \<le> v + v / 9007199254740992"
    by linarith+
  have pb: "y - y / 9007199254740992 \<le> p \<and> p \<le> y + y / 9007199254740992"
  proof (cases "x = 0")
    case True
    then show ?thesis by (simp add: p_def y_def)
  next
    case False
    then have "0 < y" using s0 by (simp add: y_def)
    from fl_bounds [OF this] show ?thesis by (simp add: p_def y_def)
  qed
  have y0: "0 \<le> y" using s0 by (simp add: y_def)
  have p0: "0 \<le> p" using pb y0 by linarith
  have p801: "p < 801" using pb yb v800 v0 by linarith
  then have "p < 2 ^ 32" by simp
  with p0 show "to_unsigned_long p = nat \<lfloor>p\<rfloor>" by (rule to_unsigned_long_floor)
  have f0: "0 \<le> \<lfloor>p\<rfloor>" using p0 by simp
  have "\<lfloor>p\<rfloor> < 801" using p801 by (simp add: floor_less_iff)
  then show "nat \<lfloor>p\<rfloor> \<le> 800" by linarith
  show "nat \<lfloor>p\<rfloor> \<le> x"
  proof (cases "x = 0")
    case True
    then have "p = 0" by (simp add: p_def)
    then show ?thesis by simp
  next
    case False
    then have "1 \<le> x" by simp
    then have "(of_nat 1 :: rat) \<le> of_nat x" by (rule of_nat_mono)
    then have "(1::rat) \<le> of_nat x" by simp
    with pb yb vx v0 have "p < of_nat x" by linarith
    then have "\<lfloor>p\<rfloor> < int x" by (simp add: floor_less_iff)
    then show ?thesis by linarith
  qed
  have fl1: "p - 1 < of_int \<lfloor>p\<rfloor>" "of_int \<lfloor>p\<rfloor> \<le> p" by linarith+
  have n: "(of_nat (nat \<lfloor>p\<rfloor>) :: rat) = of_int \<lfloor>p\<rfloor>" using f0 by simp
  have e: "800 * of_nat x / of_nat m = v" by (simp add: v_def q_def)
  have "of_int \<lfloor>p\<rfloor> - v < 1 + 1 / 4398046511104" "- (of_int \<lfloor>p\<rfloor> - v) < 1 + 1 / 4398046511104"
    using fl1 pb yb v800 v0 by linarith+
  then show "\<bar>of_nat (nat \<lfloor>p\<rfloor>) - 800 * of_nat x / of_nat m\<bar> < (1 + 1 / 4398046511104 :: rat)"
    unfolding n e by (simp only: abs_less_iff)
qed

text \<open>The two sides of the canvas.\<close>

lemma image_scale_eq:
  "image_scale w h = (if max w h = 0 then 1 else min 1 (fl (800 / of_nat (max w h))))"
  by (simp add: image_scale_def MAX_IMAGE_SIZE_def Let_def)

lemma canvas_size_eq:
  "canvas_size w h =
     (to_unsigned_long (fl (of_nat w * (if max w h = 0 then 1 else min 1 (fl (800 / of_nat (max w h)))))),
      to_unsigned_long (fl (of_nat h * (if max w h = 0 then 1 else min 1 (fl (800 / of_nat (max w h)))))))"
  by (simp add: canvas_size_def image_scale_eq Let_def)

lemma canvas_size_small:
  assumes "max w h \<le> 800"
  shows "image_scale w h = 1" and "canvas_size w h = (w, h)"
proof -
  have w: "w \<le> max w h" and h: "h \<le> max w h" by simp_all
  show "image_scale w h = 1"
    unfolding image_scale_eq using scaled_side_small(1) [OF w assms] .
  show "canvas_size w h = (w, h)"
    unfolding canvas_size_eq
    using scaled_side_small(2) [OF w assms] scaled_side_small(2) [OF h assms] by simp
qed

lemma canvas_size_large:
  assumes "800 < max w h"
  shows "image_scale w h = fl (800 / of_nat (max w h))"
    and "canvas_size w h =
      (nat \<lfloor>fl (of_nat w * fl (800 / of_nat (max w h)))\<rfloor>,
       nat \<lfloor>fl (of_nat h * fl (800 / of_nat (max w h)))\<rfloor>)"
    and "fst (canvas_size w h) \<le> 800" and "snd (canvas_size w h) \<le> 800"
    and "fst (canvas_size w h) \<le> w" and "snd (canvas_size w h) \<le> h"
    and "\<bar>of_nat (fst (canvas_size w h)) - 800 * of_nat w / of_nat (max w h)\<bar> <
           (1 + 1 / 4398046511104 :: rat)"
    and "\<bar>of_nat (snd (canvas_size w h)) - 800 * of_nat h / of_nat (max w h)\<bar> <
           (1 + 1 / 4398046511104 :: rat)"
proof -
  have w: "w \<le> max w h" and h: "h \<le> max w h" by simp_all
  note a = scaled_side_large [OF w assms] and b = scaled_side_large [OF h assms]
  show "image_scale w h = fl (800 / of_nat (max w h))"
    unfolding image_scale_eq using a(1) .
  show c: "canvas_size w h =
      (nat \<lfloor>fl (of_nat w * fl (800 / of_nat (max w h)))\<rfloor>,
       nat \<lfloor>fl (of_nat h * fl (800 / of_nat (max w h)))\<rfloor>)"
    unfolding canvas_size_eq a(1) b(1) a(2) b(2) ..
  show "fst (canvas_size w h) \<le> 800" "snd (canvas_size w h) \<le> 800"
    "fst (canvas_size w h) \<le> w" "snd (canvas_size w h) \<le> h"
    unfolding c using a(3,4) b(3,4) by simp_all
  show "\<bar>of_nat (fst (canvas_size w h)) - 800 * of_nat w / of_nat (max w h)\<bar> <
           (1 + 1 / 4398046511104 :: rat)"
    unfolding c fst_conv using a(5) .
  show "\<bar>of_nat (snd (canvas_size w h)) - 800 * of_nat h / of_nat (max w h)\<bar> <
           (1 + 1 / 4398046511104 :: rat)"
    unfolding c snd_conv using b(5) .
qed

lemma canvas_size_le:
  "fst (canvas_size w h) \<le> 800 \<and> snd (canvas_size w h) \<le> 800 \<and>
   fst (canvas_size w h) \<le> w \<and> snd (canvas_size w h) \<le> h"
proof (cases "max w h \<le> 800")
  case True
  from canvas_size_small(2) [OF True] True show ?thesis by simp
next
  case False
  then have "800 < max w h" by (simp only: not_le)
  from canvas_size_large(3-6) [OF this] show ?thesis by simp
qed

section \<open>Properties of the pipeline\<close>

lemma issued_setTranslations [simp]: "issued (setTranslations env f w) = issued w"
  by (simp add: setTranslations_def Let_def)

lemma issued_addTranslation [simp]: "issued (addTranslation env t w) = issued w"
  by (simp add: addTranslation_def)

lemma translations_addTranslation [simp]:
  "translations' (addTranslation env t w) = t # translations' w"
  by (simp add: addTranslation_def setTranslations_def Let_def)

lemma makeGPTRequest_cases:
  "makeGPTRequest net cfg msgs options reqs = (r, reqs') \<Longrightarrow>
   reqs' = reqs @ [build_request cfg msgs options] \<and>
   (case net reqs (build_request cfg msgs options) of
      Resolved d \<Rightarrow> r = Inr d
    | Rejected e \<Rightarrow> r = Inl (makeGPTRequest_catch e))"
  by (auto simp: makeGPTRequest_def Let_def split: axios_outcome.splits)

lemma processText_issued:
  "issued (snd (processText env text lang w)) =
     (if apiKey (gptConfig w) = [] then issued w
      else issued w @ [translation_request (gptConfig w) lang text])"
  by (auto simp: processText_def translation_request_def makeGPTRequest_def Let_def
      split: sum.splits axios_outcome.splits)

lemma processText_failure:
  "processText env text lang w = (Inl e, w') \<Longrightarrow>
   translations' w' = translations' w \<and> localStorage w' = localStorage w \<and> gptConfig w' = gptConfig w"
  by (auto simp: processText_def makeGPTRequest_def Let_def
      split: if_splits sum.splits axios_outcome.splits)

lemma processText_success:
  "processText env text lang w = (Inr t, w') \<Longrightarrow>
   \<exists>d. post env (issued w) (translation_request (gptConfig w) lang text) = Resolved d \<and>
       validateGPTResponse d = Inr (translatedText t) \<and>
       t = \<lparr>id' = decimal (date_now env), fileName = TEXT_TRANSLATION_NAME, timestamp = iso_now env,
            originalText = text, translatedText = translatedText t, targetLanguage = lang\<rparr> \<and>
       w' = addTranslation env t (w\<lparr>issued := issued w @ [translation_request (gptConfig w) lang text]\<rparr>)"
  by (auto simp: processText_def translation_request_def makeGPTRequest_def Let_def
      split: if_splits sum.splits axios_outcome.splits)

lemma extractTextFromImage_issued:
  "snd (extractTextFromImage net cfg b reqs) = reqs @ [extraction_request cfg b]"
  by (auto simp: extractTextFromImage_def extraction_request_def makeGPTRequest_def Let_def
      split: sum.splits axios_outcome.splits)

lemma extractTextFromImage_success:
  "extractTextFromImage net cfg b reqs = (Inr s, reqs') \<Longrightarrow>
   \<exists>d. net reqs (extraction_request cfg b) = Resolved d \<and> validateGPTResponse d = Inr s \<and>
       reqs' = reqs @ [extraction_request cfg b]"
  by (auto simp: extractTextFromImage_def extraction_request_def makeGPTRequest_def Let_def
      split: sum.splits axios_outcome.splits)

lemma processFile_failure:
  "processFile env file lang w = (Inl e, w') \<Longrightarrow>
   translations' w' = translations' w \<and> localStorage w' = localStorage w \<and> gptConfig w' = gptConfig w"
  by (auto simp: processFile_def makeGPTRequest_def Let_def
      split: if_splits sum.splits prod.splits axios_outcome.splits)

lemma processFile_success:
  assumes "processFile env file lang w = (Inr t, w')"
  shows "\<exists>b d1 d2.
       apiKey (gptConfig w) \<noteq> [] \<and>
       compressImage env file = Inr b \<and>
       post env (issued w) (extraction_request (gptConfig w) b) = Resolved d1 \<and>
       validateGPTResponse d1 = Inr (originalText t) \<and>
       trim (originalText t) \<noteq> [] \<and>
       post env (issued w @ [extraction_request (gptConfig w) b])
         (translation_request (gptConfig w) lang (originalText t)) = Resolved d2 \<and>
       validateGPTResponse d2 = Inr (translatedText t) \<and>
       t = \<lparr>id' = decimal (date_now env), fileName = name file, timestamp = iso_now env,
            originalText = originalText t, translatedText = translatedText t,
            targetLanguage = lang\<rparr> \<and>
       w' = addTranslation env t
              (w\<lparr>issued := issued w @ [extraction_request (gptConfig w) b,
                     translation_request (gptConfig w) lang (originalText t)]\<rparr>)"
proof -
  from assms have key: "apiKey (gptConfig w) \<noteq> []"
    by (auto simp: processFile_def split: if_splits)
  from assms key obtain b where b: "compressImage env file = Inr b"
    by (cases "compressImage env file") (auto simp: processFile_def)
  obtain r1 reqs1 where e: "extractTextFromImage (post env) (gptConfig w) b (issued w) = (r1, reqs1)"
    by (cases "extractTextFromImage (post env) (gptConfig w) b (issued w)")
  from assms key b e obtain s where s: "r1 = Inr s"
    by (cases r1) (auto simp: processFile_def)
  from extractTextFromImage_success [OF e [unfolded s]]
  obtain d1 where d1: "post env (issued w) (extraction_request (gptConfig w) b) = Resolved d1"
      "validateGPTResponse d1 = Inr s" "reqs1 = issued w @ [extraction_request (gptConfig w) b]"
    by blast
  from assms key b e s have ne: "trim s \<noteq> []"
    by (auto simp: processFile_def split: if_splits)
  obtain r2 reqs2 where m: "makeGPTRequest (post env) (gptConfig w)
      (translation_messages lang s) no_options reqs1 = (r2, reqs2)"
    by (cases "makeGPTRequest (post env) (gptConfig w) (translation_messages lang s) no_options reqs1")
  from assms key b e s ne m obtain d2 where r2: "r2 = Inr d2"
    by (cases r2) (auto simp: processFile_def)
  from makeGPTRequest_cases [OF m] r2
  have d2: "post env reqs1 (translation_request (gptConfig w) lang s) = Resolved d2"
    and reqs2: "reqs2 = reqs1 @ [translation_request (gptConfig w) lang s]"
    by (auto simp: translation_request_def split: axios_outcome.splits)
  from assms key b e s ne m r2 obtain tt where tt: "validateGPTResponse d2 = Inr tt"
    by (cases "validateGPTResponse d2") (auto simp: processFile_def)
  from assms key b e s ne m r2 tt
  have t: "t = \<lparr>id' = decimal (date_now env), fileName = name file, timestamp = iso_now env,
      originalText = s, translatedText = tt, targetLanguage = lang\<rparr>"
    and w': "w' = addTranslation env t (w\<lparr>issued := reqs2\<rparr>)"
    by (auto simp: processFile_def Let_def)
  from t have sel: "originalText t = s" "translatedText t = tt" by simp_all
  show ?thesis
    using key b d1 ne d2 tt t w' reqs2 unfolding sel by (intro exI [of _ b] exI [of _ d1] exI [of _ d2]) simp
qed

lemma processFile_issued_le:
  "\<exists>extra. issued (snd (processFile env file lang w)) = issued w @ extra \<and> length extra \<le> 2"
  by (auto simp: processFile_def extractTextFromImage_def makeGPTRequest_def Let_def
      split: if_splits sum.splits prod.splits axios_outcome.splits)

text \<open>
  The order of the requests on every run of \<open>processFile\<close>, failing ones too: nothing is
  issued, or the extraction request alone, or the extraction request and then the
  translation request for the text that the answer to the first one gave.
\<close>

lemma processFile_every_run:
  "issued (snd (processFile env file lang w)) = issued w \<or>
   (\<exists>b. compressImage env file = Inr b \<and>
      (issued (snd (processFile env file lang w)) = issued w @ [extraction_request (gptConfig w) b] \<or>
       (\<exists>d s. post env (issued w) (extraction_request (gptConfig w) b) = Resolved d \<and>
          validateGPTResponse d = Inr s \<and> trim s \<noteq> [] \<and>
          issued (snd (processFile env file lang w)) =
            issued w @ [extraction_request (gptConfig w) b,
                        translation_request (gptConfig w) lang s])))"
  by (auto simp: processFile_def extractTextFromImage_def extraction_request_def
      translation_request_def makeGPTRequest_def Let_def
      split: if_splits sum.splits prod.splits axios_outcome.splits)

text \<open>What a successful \<open>compressImage\<close> returns, and where it stands in \<open>processFile\<close>.\<close>

lemma compressImage_success:
  assumes "compressImage env file = Inr b"
  shows "\<exists>iw ih. size' file \<le> MAX_FILE_SIZE \<and> load_image env file = Loaded iw ih \<and>
     has_2d_context env \<and>
     b = toDataURL env file (fst (canvas_size iw ih)) (snd (canvas_size iw ih)) \<and>
     compressedSize b \<le> int MAX_FILE_SIZE"
  using assms
  by (auto simp: compressImage_def Let_def split: if_splits load_outcome.splits prod.splits)

lemma processFile_first_request:
  assumes "issued (snd (processFile env file lang w)) \<noteq> issued w"
  shows "\<exists>b rest. compressImage env file = Inr b \<and>
     issued (snd (processFile env file lang w)) = issued w @ extraction_request (gptConfig w) b # rest"
  using assms
  by (auto simp: processFile_def extractTextFromImage_def extraction_request_def
      makeGPTRequest_def Let_def split: if_splits sum.splits prod.splits axios_outcome.splits)

lemma processFile_no_request:
  assumes "compressImage env file = Inl e"
  shows "snd (processFile env file lang w) = w"
  using assms by (simp add: processFile_def)

section \<open>The worked instances, evaluated\<close>

lemma ascii_eq_Nil [simp]: "ascii s = [] \<longleftrightarrow> s = []"
  by (simp add: ascii_def)

lemma example_platform_fields:
  "post (example_platform net) = net"
  "load_image (example_platform net) = example_image"
  "has_2d_context (example_platform net)"
  "toDataURL (example_platform net) = example_data_url"
  "date_now (example_platform net) = 1700000000000"
  "iso_now (example_platform net) = ascii ''2023-11-14T22:13:20.000Z''"
  "stringify_translations (example_platform net) = json_of_translations"
  "stringify_config (example_platform net) = json_of_config"
  by (simp_all add: example_platform_def)

lemma fl_width_example: "\<lfloor>fl (1000 * fl (800 / 1000))\<rfloor> = 800"
  by code_simp

lemma fl_height_example: "\<lfloor>fl (333 * fl (800 / 1000))\<rfloor> = 266"
  by code_simp

lemma fl_sign_example: "\<not> fl (1000 * fl (800 / 1000)) < 0" "\<not> fl (333 * fl (800 / 1000)) < 0"
  by code_simp+

lemma fl_scale_example: "fl (800 / 1000) < 1"
  by code_simp

lemma canvas_size_example: "canvas_size 1000 333 = (800, 266)"
proof -
  have "image_scale 1000 333 = fl (800 / 1000)"
    using fl_scale_example by (simp add: image_scale_def MAX_IMAGE_SIZE_def)
  then have "canvas_size 1000 333 =
      (to_unsigned_long (fl (1000 * fl (800 / 1000))), to_unsigned_long (fl (333 * fl (800 / 1000))))"
    by (simp add: canvas_size_def Let_def)
  then show ?thesis
    unfolding to_unsigned_long_def using fl_sign_example
    by (simp only: fl_width_example fl_height_example if_False) simp
qed

lemma compressImage_example:
  "compressImage (example_platform net) small_file = Inr (example_data_url small_file 800 266)"
  by (simp add: compressImage_def canvas_size_example example_platform_fields example_image_def
      small_file_def MAX_FILE_SIZE_def compressedSize_def example_data_url_def ascii_def
      decimal.simps)

lemma validate_Hello: "validateGPTResponse (Some \<lparr>choices = Some [\<lparr>message = Some \<lparr>content = Some (ascii ''Hello'')\<rparr>\<rparr>]\<rparr>) = Inr (ascii ''Hello'')"
  by (simp add: validateGPTResponse_def first_content_def rejectPatterns_def regex_test_def
      ascii_def canonicalize_def)

lemma validate_Bonjour: "validateGPTResponse (Some \<lparr>choices = Some [\<lparr>message = Some \<lparr>content = Some (ascii ''Bonjour'')\<rparr>\<rparr>]\<rparr>) = Inr (ascii ''Bonjour'')"
  by (simp add: validateGPTResponse_def first_content_def rejectPatterns_def regex_test_def
      ascii_def canonicalize_def)

lemma trim_Hello: "trim (ascii ''Hello'') = ascii ''Hello''"
  by (simp add: trim_def ascii_def is_js_whitespace_def)

lemma decimal_example: "decimal 1700000000000 = ascii ''1700000000000''"
  by (simp add: decimal.simps ascii_def)

lemma processText_example:
  "fst (processText (example_platform translating_network) (ascii ''Hello'') (ascii ''fr'')
          (example_world example_config roomy_storage)) = Inr example_text_translation"
  by (simp add: processText_def makeGPTRequest_def Let_def example_platform_fields
      translating_network_def reply_def validate_Bonjour example_world_def example_config_def
      example_text_translation_def decimal_example)

lemma processFile_example:
  "fst (processFile (example_platform answering_network) small_file (ascii ''fr'')
          (example_world example_config roomy_storage)) = Inr example_file_translation"
proof -
  have key: "apiKey (gptConfig (example_world example_config roomy_storage)) \<noteq> []"
    by (simp add: example_world_def example_config_def)
  have nm: "name small_file = ascii ''scan.png''" by (simp add: small_file_def)
  show ?thesis
    using key
    by (simp add: processFile_def compressImage_example extractTextFromImage_def
        makeGPTRequest_def Let_def example_platform_fields answering_network_def reply_def
        validate_Hello validate_Bonjour trim_Hello example_file_translation_def
        decimal_example nm example_world_def)
qed

lemma processText_refused_example:
  "fst (processText (example_platform unauthorized_network) (ascii ''Hello'') (ascii ''fr'')
          history_world) = Inl (Error MSG_KEY_INVALID)"
  by (simp add: processText_def makeGPTRequest_def makeGPTRequest_catch_def Let_def
      example_platform_fields unauthorized_network_def history_world_def example_config_def
      ascii_def)

lemma processFile_refused_example:
  "fst (processFile (example_platform unauthorized_network) small_file (ascii ''fr'')
          history_world) = Inl (Error MSG_KEY_INVALID)"
proof -
  have c: "Some (ascii ''ERR_BAD_REQUEST'') \<noteq> Some (ascii ''ECONNABORTED'')"
    by (simp add: ascii_def)
  show ?thesis
    using c
    by (simp add: processFile_def compressImage_example extractTextFromImage_def
        makeGPTRequest_def makeGPTRequest_catch_def Let_def example_platform_fields
        unauthorized_network_def history_world_def example_config_def)
qed

lemma processText_history_example:
  "fst (processText (example_platform translating_network) (ascii ''Hello'') (ascii ''fr'')
          history_world) = Inr example_text_translation"
  by (simp add: processText_def makeGPTRequest_def Let_def example_platform_fields
      translating_network_def reply_def validate_Bonjour history_world_def example_config_def
      example_text_translation_def decimal_example)

section \<open>Failing requests\<close>

text \<open>
  Claim C1. Every failure of a backend request surfaces to the caller as a thrown Error
  carrying a user-readable message, and \<open>makeGPTRequest\<close> never returns normally on a
  failed request. For every axios error caught in \<open>makeGPTRequest\<close> the message is
  chosen by the shape of the error: no response gives "Cannot connect to the server,
  please check the network connection"; status 401 gives "The API Key is invalid or has
  expired", 403 "The API Key has no access permission", 429 "Requests are too frequent,
  please retry later", a status from 500 on "Server error, please retry later", and any
  other status the error message of the server, or "The request failed, please retry"
  when there is none. An error that is not an axios error gives "An unknown error
  occurred, please retry". The axios errors are those that axios builds: it gives the code
  \<open>ECONNABORTED\<close> to a timeout and to an abort, which have no response, so that no
  error holds both a response and that code.
\<close>

theorem makeGPTRequest_failure_message:
  assumes "net reqs (build_request cfg msgs options) = Rejected err"
    and "\<forall>r. err \<noteq> AxiosError (Some (ascii ''ECONNABORTED'')) (Some r)"
  shows "\<exists>m. fst (makeGPTRequest net cfg msgs options reqs) = Inl (Error m) \<and>
     (err = OtherError \<longrightarrow> m = MSG_UNKNOWN_ERROR) \<and>
     (\<forall>code. err = AxiosError code None \<longrightarrow> m = MSG_NO_CONNECTION) \<and>
     (\<forall>code r. err = AxiosError code (Some r) \<longrightarrow>
        (status r = 401 \<longrightarrow> m = MSG_KEY_INVALID) \<and>
        (status r = 403 \<longrightarrow> m = MSG_KEY_FORBIDDEN) \<and>
        (status r = 429 \<longrightarrow> m = MSG_TOO_FREQUENT) \<and>
        (500 \<le> status r \<longrightarrow> m = MSG_SERVER_ERROR) \<and>
        (status r \<notin> {401, 403, 429} \<and> status r < 500 \<longrightarrow>
           m = (case error_message r of
                  None \<Rightarrow> MSG_REQUEST_FAILED
                | Some s \<Rightarrow> if s = [] then MSG_REQUEST_FAILED else s)))"
proof (cases err)
  case OtherError
  with assms(1) show ?thesis
    by (simp add: makeGPTRequest_def makeGPTRequest_catch_def)
next
  case (AxiosError code response)
  show ?thesis
  proof (cases response)
    case None
    with AxiosError assms(1) show ?thesis
      by (simp add: makeGPTRequest_def makeGPTRequest_catch_def)
  next
    case (Some r)
    with AxiosError assms(2) have "code \<noteq> Some (ascii ''ECONNABORTED'')"
      by auto
    with Some AxiosError assms(1) show ?thesis
      by (simp add: makeGPTRequest_def makeGPTRequest_catch_def string_or_def)
  qed
qed

theorem makeGPTRequest_failure_message_witness:
  "unauthorized_network [] (build_request example_config [] no_options) =
     Rejected (AxiosError (Some (ascii ''ERR_BAD_REQUEST'')) (Some \<lparr>status = 401, error_message = None\<rparr>)) \<and>
   Some (ascii ''ERR_BAD_REQUEST'') \<noteq> Some (ascii ''ECONNABORTED'') \<and>
   fst (makeGPTRequest unauthorized_network example_config [] no_options []) =
     Inl (Error MSG_KEY_INVALID)"
proof -
  have h: "unauthorized_network [] (build_request example_config [] no_options) =
     Rejected (AxiosError (Some (ascii ''ERR_BAD_REQUEST'')) (Some \<lparr>status = 401, error_message = None\<rparr>))"
    by (simp add: unauthorized_network_def)
  have c: "Some (ascii ''ERR_BAD_REQUEST'') \<noteq> Some (ascii ''ECONNABORTED'')"
    by (simp add: ascii_def)
  then have n: "\<forall>r. AxiosError (Some (ascii ''ERR_BAD_REQUEST''))
        (Some \<lparr>status = 401, error_message = None\<rparr>) \<noteq>
      AxiosError (Some (ascii ''ECONNABORTED'')) (Some r)"
    by simp
  from makeGPTRequest_failure_message
    [where net = unauthorized_network and reqs = "[]" and cfg = example_config and msgs = "[]"
       and options = no_options, OF h n] c h
  show ?thesis
    by auto
qed

text \<open>
  Claim C6. The pipeline never retries: every invocation of \<open>makeGPTRequest\<close> issues
  one HTTP request, the one built from its arguments, and when that request fails no
  second attempt is made before the error is propagated to the caller.
\<close>

theorem makeGPTRequest_issues_one_request:
  "snd (makeGPTRequest net cfg msgs options reqs) = reqs @ [build_request cfg msgs options] \<and>
   length (snd (makeGPTRequest net cfg msgs options reqs)) = length reqs + 1 \<and>
   (\<forall>err. net reqs (build_request cfg msgs options) = Rejected err \<longrightarrow>
      makeGPTRequest net cfg msgs options reqs =
        (Inl (makeGPTRequest_catch err), reqs @ [build_request cfg msgs options]))"
  by (simp add: makeGPTRequest_def Let_def)

theorem makeGPTRequest_issues_one_request_witness:
  "unreachable_network [] (build_request example_config [] no_options) =
     Rejected (AxiosError (Some (ascii ''ERR_NETWORK'')) None) \<and>
   makeGPTRequest unreachable_network example_config [] no_options [] =
     (Inl (Error MSG_NO_CONNECTION), [build_request example_config [] no_options])"
proof -
  have h: "unreachable_network [] (build_request example_config [] no_options) =
     Rejected (AxiosError (Some (ascii ''ERR_NETWORK'')) None)"
    by (simp add: unreachable_network_def)
  from makeGPTRequest_issues_one_request [of unreachable_network example_config "[]" no_options "[]"] h
  show ?thesis by (simp add: makeGPTRequest_catch_def)
qed

section \<open>The request pipeline\<close>

text \<open>
  Claim C2, as the specification states it: every invocation of the
  \<open>processFile\<close>/\<open>processText\<close> pipeline issues exactly three HTTP POST requests. It
  fails for both: a successful \<open>processText\<close> issues one request and a successful
  \<open>processFile\<close> two.
\<close>

theorem three_requests_counterexample:
  "fst (processText (example_platform translating_network) (ascii ''Hello'') (ascii ''fr'')
          (example_world example_config roomy_storage)) = Inr example_text_translation \<and>
   length (issued (snd (processText (example_platform translating_network) (ascii ''Hello'')
          (ascii ''fr'') (example_world example_config roomy_storage)))) = 1 \<and>
   fst (processFile (example_platform answering_network) small_file (ascii ''fr'')
          (example_world example_config roomy_storage)) = Inr example_file_translation \<and>
   length (issued (snd (processFile (example_platform answering_network) small_file (ascii ''fr'')
          (example_world example_config roomy_storage)))) = 2"
proof -
  obtain w' where w': "processFile (example_platform answering_network) small_file (ascii ''fr'')
      (example_world example_config roomy_storage) = (Inr example_file_translation, w')"
    using processFile_example by (metis prod.collapse)
  from processFile_success [OF w'] have "length (issued w') = 2"
    by (auto simp: example_world_def)
  with w' have f: "length (issued (snd (processFile (example_platform answering_network) small_file
      (ascii ''fr'') (example_world example_config roomy_storage)))) = 2"
    by simp
  have t: "length (issued (snd (processText (example_platform translating_network) (ascii ''Hello'')
      (ascii ''fr'') (example_world example_config roomy_storage)))) = 1"
    by (simp add: processText_issued example_world_def example_config_def)
  from processText_example t processFile_example f show ?thesis
    by (intro conjI)
qed

text \<open>
  Claim C2, amended. The pipeline issues its HTTP POST requests one after the other, each
  awaited before the next begins: \<open>processText\<close> issues at most one, and exactly one, the
  translation request, when an API key is configured; \<open>processFile\<close> appends at most two
  to the requests issued before, and on success exactly two, the extraction request and
  then the translation request, which carries the text that the answer to the first one
  gave.
\<close>

theorem pipeline_requests:
  "length (issued (snd (processText env text lang w))) \<le> length (issued w) + 1 \<and>
   (apiKey (gptConfig w) \<noteq> [] \<longrightarrow>
      issued (snd (processText env text lang w)) =
        issued w @ [translation_request (gptConfig w) lang text]) \<and>
   (\<exists>extra. issued (snd (processFile env file lang w)) = issued w @ extra \<and> length extra \<le> 2) \<and>
   (\<forall>t. fst (processFile env file lang w) = Inr t \<longrightarrow>
      (\<exists>b d. post env (issued w) (extraction_request (gptConfig w) b) = Resolved d \<and>
         validateGPTResponse d = Inr (originalText t) \<and>
         issued (snd (processFile env file lang w)) =
           issued w @ [extraction_request (gptConfig w) b,
                       translation_request (gptConfig w) lang (originalText t)]))"
proof -
  have "\<exists>b d. post env (issued w) (extraction_request (gptConfig w) b) = Resolved d \<and>
         validateGPTResponse d = Inr (originalText t) \<and>
         issued (snd (processFile env file lang w)) =
           issued w @ [extraction_request (gptConfig w) b,
                       translation_request (gptConfig w) lang (originalText t)]"
    if "fst (processFile env file lang w) = Inr t" for t
  proof -
    from that obtain w' where w': "processFile env file lang w = (Inr t, w')"
      by (metis prod.collapse)
    from processFile_success [OF w'] obtain b d where
      "post env (issued w) (extraction_request (gptConfig w) b) = Resolved d"
      "validateGPTResponse d = Inr (originalText t)"
      "w' = addTranslation env t
         (w\<lparr>issued := issued w @ [extraction_request (gptConfig w) b,
                translation_request (gptConfig w) lang (originalText t)]\<rparr>)"
      by blast
    then show ?thesis
      by (intro exI [of _ b] exI [of _ d]) (simp add: w')
  qed
  then show ?thesis
    using processFile_issued_le [of env "file" lang w] by (simp add: processText_issued)
qed

theorem pipeline_requests_witness:
  "apiKey (gptConfig (example_world example_config roomy_storage)) \<noteq> [] \<and>
   issued (snd (processText (example_platform answering_network) (ascii ''Hello'') (ascii ''fr'')
          (example_world example_config roomy_storage))) =
     [translation_request example_config (ascii ''fr'') (ascii ''Hello'')] \<and>
   fst (processFile (example_platform answering_network) small_file (ascii ''fr'')
          (example_world example_config roomy_storage)) = Inr example_file_translation \<and>
   length (issued (snd (processFile (example_platform answering_network) small_file (ascii ''fr'')
          (example_world example_config roomy_storage)))) = 2 \<and>
   last (issued (snd (processFile (example_platform answering_network) small_file (ascii ''fr'')
          (example_world example_config roomy_storage)))) =
     translation_request example_config (ascii ''fr'') (ascii ''Hello'')"
proof -
  have key: "apiKey (gptConfig (example_world example_config roomy_storage)) \<noteq> []"
    by (simp add: example_world_def example_config_def)
  have w: "issued (example_world example_config roomy_storage) = []"
      "gptConfig (example_world example_config roomy_storage) = example_config"
    by (simp_all add: example_world_def)
  have o: "originalText example_file_translation = ascii ''Hello''"
    by (simp add: example_file_translation_def)
  from pipeline_requests [of "example_platform answering_network" "ascii ''Hello''" "ascii ''fr''"
      "example_world example_config roomy_storage" small_file]
    key processFile_example
  obtain b where
    "issued (snd (processText (example_platform answering_network) (ascii ''Hello'') (ascii ''fr'')
          (example_world example_config roomy_storage))) =
       [translation_request example_config (ascii ''fr'') (ascii ''Hello'')]"
    "issued (snd (processFile (example_platform answering_network) small_file (ascii ''fr'')
          (example_world example_config roomy_storage))) =
       [extraction_request example_config b,
        translation_request example_config (ascii ''fr'') (ascii ''Hello'')]"
    by (auto simp: w o)
  with key processFile_example show ?thesis
    by simp
qed

text \<open>
  Claim C5. For every image file, \<open>processFile\<close> first extracts text through the
  multimodal request, which carries the compressed image, and only then issues the
  translation request with the extracted text as input; on success the returned
  Translation has \<open>originalText\<close> equal to the output of the extraction,
  \<open>translatedText\<close> equal to the validated answer to the translation request, and
  \<open>targetLanguage\<close> equal to the language code the user selected.
\<close>

theorem processFile_extracts_then_translates:
  assumes "processFile env file lang w = (Inr t, w')"
  shows "\<exists>b d1 d2.
     compressImage env file = Inr b \<and>
     model (extraction_request (gptConfig w) b) = ascii ''gpt-4o'' \<and>
     messages (extraction_request (gptConfig w) b) ! 1 =
       \<lparr>role = ascii ''user'', msg_content = Parts [TextPart OCR_USER_TEXT, ImageUrlPart b]\<rparr> \<and>
     post env (issued w) (extraction_request (gptConfig w) b) = Resolved d1 \<and>
     validateGPTResponse d1 = Inr (originalText t) \<and>
     messages (translation_request (gptConfig w) lang (originalText t)) =
       [\<lparr>role = ascii ''system'',
         msg_content = Text (TRANSLATE_PROMPT_HEAD @ lang @ TRANSLATE_PROMPT_TAIL)\<rparr>,
        \<lparr>role = ascii ''user'', msg_content = Text (originalText t)\<rparr>] \<and>
     post env (issued w @ [extraction_request (gptConfig w) b])
       (translation_request (gptConfig w) lang (originalText t)) = Resolved d2 \<and>
     validateGPTResponse d2 = Inr (translatedText t) \<and>
     targetLanguage t = lang \<and>
     issued w' = issued w @ [extraction_request (gptConfig w) b,
                             translation_request (gptConfig w) lang (originalText t)]"
proof -
  from processFile_success [OF assms] obtain b d1 d2 where
    *: "compressImage env file = Inr b"
      "post env (issued w) (extraction_request (gptConfig w) b) = Resolved d1"
      "validateGPTResponse d1 = Inr (originalText t)"
      "post env (issued w @ [extraction_request (gptConfig w) b])
         (translation_request (gptConfig w) lang (originalText t)) = Resolved d2"
      "validateGPTResponse d2 = Inr (translatedText t)"
    and t: "t = \<lparr>id' = decimal (date_now env), fileName = name file, timestamp = iso_now env,
         originalText = originalText t, translatedText = translatedText t,
         targetLanguage = lang\<rparr>"
    and w': "w' = addTranslation env t
         (w\<lparr>issued := issued w @ [extraction_request (gptConfig w) b,
                translation_request (gptConfig w) lang (originalText t)]\<rparr>)"
    by blast
  from t have lang: "targetLanguage t = lang"
    by (metis Translation.select_convs(6))
  have m: "model (extraction_request (gptConfig w) b) = ascii ''gpt-4o''"
    by (simp add: extraction_request_def build_request_def string_or_def)
  have p: "messages (extraction_request (gptConfig w) b) ! 1 =
       \<lparr>role = ascii ''user'', msg_content = Parts [TextPart OCR_USER_TEXT, ImageUrlPart b]\<rparr>"
    by (simp add: extraction_request_def build_request_def extraction_messages_def)
  have q: "messages (translation_request (gptConfig w) lang (originalText t)) =
       [\<lparr>role = ascii ''system'',
         msg_content = Text (TRANSLATE_PROMPT_HEAD @ lang @ TRANSLATE_PROMPT_TAIL)\<rparr>,
        \<lparr>role = ascii ''user'', msg_content = Text (originalText t)\<rparr>]"
    by (simp add: translation_request_def build_request_def translation_messages_def)
  have i: "issued w' = issued w @ [extraction_request (gptConfig w) b,
                             translation_request (gptConfig w) lang (originalText t)]"
    by (subst w') simp
  from * lang m p q i show ?thesis by blast
qed

theorem processFile_extracts_then_translates_witness:
  "processFile (example_platform answering_network) small_file (ascii ''fr'')
       (example_world example_config roomy_storage) =
     (Inr example_file_translation,
      snd (processFile (example_platform answering_network) small_file (ascii ''fr'')
        (example_world example_config roomy_storage))) \<and>
   originalText example_file_translation = ascii ''Hello'' \<and>
   translatedText example_file_translation = ascii ''Bonjour'' \<and>
   targetLanguage example_file_translation = ascii ''fr'' \<and>
   issued (snd (processFile (example_platform answering_network) small_file (ascii ''fr'')
       (example_world example_config roomy_storage))) =
     [extraction_request example_config (example_data_url small_file 800 266),
      translation_request example_config (ascii ''fr'') (ascii ''Hello'')]"
proof -
  have h: "processFile (example_platform answering_network) small_file (ascii ''fr'')
       (example_world example_config roomy_storage) =
     (Inr example_file_translation,
      snd (processFile (example_platform answering_network) small_file (ascii ''fr'')
        (example_world example_config roomy_storage)))"
    using processFile_example by (metis prod.collapse)
  from processFile_extracts_then_translates [OF h] h show ?thesis
    by (auto simp: compressImage_example example_world_def example_file_translation_def)
qed

text \<open>
  Claim C8. \<open>processText\<close> and \<open>processFile\<close> are atomic with respect to the history:
  for every invocation that throws (configuration missing, compression failure, request
  failure, invalid or refused model response, or empty extraction result) the list of
  translations, and with it the store, is exactly what it was before the call; a new
  Translation is put in front only after the translated text has been validated.
\<close>

theorem pipeline_is_atomic:
  "(\<forall>e w'. processText env text lang w = (Inl e, w') \<longrightarrow>
      translations' w' = translations' w \<and> localStorage w' = localStorage w) \<and>
   (\<forall>e w'. processFile env file lang w = (Inl e, w') \<longrightarrow>
      translations' w' = translations' w \<and> localStorage w' = localStorage w) \<and>
   (\<forall>t w'. processText env text lang w = (Inr t, w') \<longrightarrow>
      translations' w' = t # translations' w \<and>
      (\<exists>d. post env (issued w) (translation_request (gptConfig w) lang text) = Resolved d \<and>
           validateGPTResponse d = Inr (translatedText t))) \<and>
   (\<forall>t w'. processFile env file lang w = (Inr t, w') \<longrightarrow>
      translations' w' = t # translations' w \<and>
      (\<exists>d reqs. post env reqs (translation_request (gptConfig w) lang (originalText t)) = Resolved d \<and>
           validateGPTResponse d = Inr (translatedText t)))"
proof (intro conjI allI impI)
  fix e w' assume "processText env text lang w = (Inl e, w')"
  from processText_failure [OF this]
  show "translations' w' = translations' w" "localStorage w' = localStorage w" by simp_all
next
  fix e w' assume "processFile env file lang w = (Inl e, w')"
  from processFile_failure [OF this]
  show "translations' w' = translations' w" "localStorage w' = localStorage w" by simp_all
next
  fix t w' assume a: "processText env text lang w = (Inr t, w')"
  from processText_success [OF a]
  obtain d where d: "post env (issued w) (translation_request (gptConfig w) lang text) = Resolved d"
      "validateGPTResponse d = Inr (translatedText t)"
    and w': "w' = addTranslation env t (w\<lparr>issued := issued w @ [translation_request (gptConfig w) lang text]\<rparr>)"
    by blast
  show "translations' w' = t # translations' w" by (subst w') simp
  from d show "\<exists>d. post env (issued w) (translation_request (gptConfig w) lang text) = Resolved d \<and>
      validateGPTResponse d = Inr (translatedText t)" by blast
next
  fix t w' assume a: "processFile env file lang w = (Inr t, w')"
  from processFile_success [OF a]
  obtain b d2 where d: "post env (issued w @ [extraction_request (gptConfig w) b])
         (translation_request (gptConfig w) lang (originalText t)) = Resolved d2"
      "validateGPTResponse d2 = Inr (translatedText t)"
    and w': "w' = addTranslation env t
         (w\<lparr>issued := issued w @ [extraction_request (gptConfig w) b,
                translation_request (gptConfig w) lang (originalText t)]\<rparr>)"
    by blast
  show "translations' w' = t # translations' w" by (subst w') simp
  from d show "\<exists>d reqs. post env reqs (translation_request (gptConfig w) lang (originalText t)) = Resolved d \<and>
      validateGPTResponse d = Inr (translatedText t)" by blast
qed

theorem pipeline_is_atomic_witness:
  "fst (processText (example_platform unauthorized_network) (ascii ''Hello'') (ascii ''fr'')
          history_world) = Inl (Error MSG_KEY_INVALID) \<and>
   translations' (snd (processText (example_platform unauthorized_network) (ascii ''Hello'')
          (ascii ''fr'') history_world)) = translations' history_world \<and>
   localStorage (snd (processText (example_platform unauthorized_network) (ascii ''Hello'')
          (ascii ''fr'') history_world)) = localStorage history_world \<and>
   fst (processFile (example_platform unauthorized_network) small_file (ascii ''fr'')
          history_world) = Inl (Error MSG_KEY_INVALID) \<and>
   translations' (snd (processFile (example_platform unauthorized_network) small_file
          (ascii ''fr'') history_world)) = translations' history_world \<and>
   localStorage (snd (processFile (example_platform unauthorized_network) small_file
          (ascii ''fr'') history_world)) = localStorage history_world \<and>
   fst (processText (example_platform translating_network) (ascii ''Hello'') (ascii ''fr'')
          history_world) = Inr example_text_translation \<and>
   translations' (snd (processText (example_platform translating_network) (ascii ''Hello'')
          (ascii ''fr'') history_world)) = example_text_translation # translations' history_world \<and>
   fst (processFile (example_platform answering_network) small_file (ascii ''fr'')
          (example_world example_config roomy_storage)) = Inr example_file_translation \<and>
   translations' (snd (processFile (example_platform answering_network) small_file (ascii ''fr'')
          (example_world example_config roomy_storage))) =
     example_file_translation # translations' (example_world example_config roomy_storage)"
proof -
  have 1: "processText (example_platform unauthorized_network) (ascii ''Hello'') (ascii ''fr'')
      history_world = (Inl (Error MSG_KEY_INVALID),
        snd (processText (example_platform unauthorized_network) (ascii ''Hello'') (ascii ''fr'')
          history_world))"
    using processText_refused_example by (metis prod.collapse)
  have 2: "processFile (example_platform unauthorized_network) small_file (ascii ''fr'')
      history_world = (Inl (Error MSG_KEY_INVALID),
        snd (processFile (example_platform unauthorized_network) small_file (ascii ''fr'')
          history_world))"
    using processFile_refused_example by (metis prod.collapse)
  have 3: "processText (example_platform translating_network) (ascii ''Hello'') (ascii ''fr'')
      history_world = (Inr example_text_translation,
        snd (processText (example_platform translating_network) (ascii ''Hello'') (ascii ''fr'')
          history_world))"
    using processText_history_example by (metis prod.collapse)
  have 4: "processFile (example_platform answering_network) small_file (ascii ''fr'')
      (example_world example_config roomy_storage) = (Inr example_file_translation,
        snd (processFile (example_platform answering_network) small_file (ascii ''fr'')
          (example_world example_config roomy_storage)))"
    using processFile_example by (metis prod.collapse)
  note a = pipeline_is_atomic [of "example_platform unauthorized_network" "ascii ''Hello''"
      "ascii ''fr''" history_world small_file]
  note b = pipeline_is_atomic [of "example_platform translating_network" "ascii ''Hello''"
      "ascii ''fr''" history_world small_file]
  note c = pipeline_is_atomic [of "example_platform answering_network" "ascii ''Hello''"
      "ascii ''fr''" "example_world example_config roomy_storage" small_file]
  from a 1 have t1: "translations' (snd (processText (example_platform unauthorized_network)
      (ascii ''Hello'') (ascii ''fr'') history_world)) = translations' history_world"
    and s1: "localStorage (snd (processText (example_platform unauthorized_network)
      (ascii ''Hello'') (ascii ''fr'') history_world)) = localStorage history_world"
    by blast+
  from a 2 have t2: "translations' (snd (processFile (example_platform unauthorized_network)
      small_file (ascii ''fr'') history_world)) = translations' history_world"
    and s2: "localStorage (snd (processFile (example_platform unauthorized_network)
      small_file (ascii ''fr'') history_world)) = localStorage history_world"
    by blast+
  from b 3 have t3: "translations' (snd (processText (example_platform translating_network)
      (ascii ''Hello'') (ascii ''fr'') history_world)) =
      example_text_translation # translations' history_world"
    by blast
  from c 4 have t4: "translations' (snd (processFile (example_platform answering_network)
      small_file (ascii ''fr'') (example_world example_config roomy_storage))) =
      example_file_translation # translations' (example_world example_config roomy_storage)"
    by blast
  from processText_refused_example t1 s1 processFile_refused_example t2 s2
    processText_history_example t3 processFile_example t4
  show ?thesis by (intro conjI)
qed

section \<open>Downscaling\<close>

text \<open>
  Rounding matters: the longest side of an image of 1078 by 1078 pixels becomes 799, not
  800, because \<open>1078 * (800 / 1078)\<close> is 799.9999999999999 in double arithmetic.
\<close>

lemma fl_rounding_example:
  "fl (800 / 1078) < 1" "\<not> fl (1078 * fl (800 / 1078)) < 0" "\<lfloor>fl (1078 * fl (800 / 1078))\<rfloor> = 799"
  by code_simp+

lemma canvas_size_rounding_example: "canvas_size 1078 1078 = (799, 799)"
proof -
  have "image_scale 1078 1078 = fl (800 / 1078)"
    using fl_rounding_example(1) by (simp add: image_scale_def MAX_IMAGE_SIZE_def)
  then have "canvas_size 1078 1078 =
      (to_unsigned_long (fl (1078 * fl (800 / 1078))), to_unsigned_long (fl (1078 * fl (800 / 1078))))"
    by (simp add: canvas_size_def Let_def)
  then show ?thesis
    unfolding to_unsigned_long_def using fl_rounding_example(2)
    by (simp only: fl_rounding_example(3) if_False) simp
qed

text \<open>
  Claim C4, as the specification states it: the image sent to the extraction request has
  the original width and height multiplied by \<open>min(1, 800 / max(width, height))\<close>. It
  fails for an image of 1000 by 333 pixels: the scale is 0.8, the canvas takes whole
  numbers of pixels, and the image that is sent is 800 by 266, while 333 times the scale
  is 266.4.
\<close>

theorem scaled_dimensions_counterexample:
  "load_image (example_platform answering_network) small_file = Loaded 1000 333 \<and>
   compressImage (example_platform answering_network) small_file =
     Inr (toDataURL (example_platform answering_network) small_file 800 266) \<and>
   hd (issued (snd (processFile (example_platform answering_network) small_file (ascii ''fr'')
         (example_world example_config roomy_storage)))) =
     extraction_request example_config
       (toDataURL (example_platform answering_network) small_file 800 266) \<and>
   (of_nat 266 :: rat) \<noteq> of_nat 333 * min 1 (800 / of_nat (max 1000 333))"
proof -
  have h: "processFile (example_platform answering_network) small_file (ascii ''fr'')
       (example_world example_config roomy_storage) =
     (Inr example_file_translation,
      snd (processFile (example_platform answering_network) small_file (ascii ''fr'')
        (example_world example_config roomy_storage)))"
    using processFile_example by (metis prod.collapse)
  from processFile_success [OF h]
  have "hd (issued (snd (processFile (example_platform answering_network) small_file (ascii ''fr'')
         (example_world example_config roomy_storage)))) =
     extraction_request example_config (example_data_url small_file 800 266)"
    by (auto simp: compressImage_example example_world_def)
  then show ?thesis
    by (simp add: compressImage_example example_platform_fields example_image_def)
qed

text \<open>
  Claim C4, amended. Images are downscaled client-side before upload: for every file
  accepted by \<open>processFile\<close>, \<open>compressImage\<close> completes before any HTTP request is
  issued (when it throws, none is issued, and the first request that is issued carries what
  it returned), and the image sent to the extraction request is the JPEG data URL of a
  canvas whose width and height are the original dimensions multiplied by
  \<open>scale = min(1, 800 / max(width, height))\<close> in double arithmetic and then truncated to
  whole pixels. So neither dimension exceeds 800 pixels or the original dimension; an image
  whose longest side is at most 800 pixels keeps its dimensions; and for a larger image
  each dimension differs from the exact product \<open>800 * side / max(width, height)\<close> by
  less than one pixel and \<open>2^-42\<close>, so that the aspect ratio is preserved up to this
  truncation.
\<close>

theorem image_is_downscaled_before_upload:
  "(\<forall>e. compressImage env file = Inl e \<longrightarrow> snd (processFile env file lang w) = w) \<and>
   (issued (snd (processFile env file lang w)) \<noteq> issued w \<longrightarrow>
      (\<exists>w0 h0 rest.
         load_image env file = Loaded w0 h0 \<and>
         compressImage env file =
           Inr (toDataURL env file (fst (canvas_size w0 h0)) (snd (canvas_size w0 h0))) \<and>
         issued (snd (processFile env file lang w)) =
           issued w @
           extraction_request (gptConfig w)
             (toDataURL env file (fst (canvas_size w0 h0)) (snd (canvas_size w0 h0))) # rest)) \<and>
   canvas_size iw ih =
     (to_unsigned_long (fl (of_nat iw * image_scale iw ih)),
      to_unsigned_long (fl (of_nat ih * image_scale iw ih))) \<and>
   fst (canvas_size iw ih) \<le> 800 \<and> snd (canvas_size iw ih) \<le> 800 \<and>
   fst (canvas_size iw ih) \<le> iw \<and> snd (canvas_size iw ih) \<le> ih \<and>
   (max iw ih \<le> 800 \<longrightarrow> image_scale iw ih = 1 \<and> canvas_size iw ih = (iw, ih)) \<and>
   (800 < max iw ih \<longrightarrow>
      image_scale iw ih = fl (800 / of_nat (max iw ih)) \<and>
      canvas_size iw ih =
        (nat \<lfloor>fl (of_nat iw * fl (800 / of_nat (max iw ih)))\<rfloor>,
         nat \<lfloor>fl (of_nat ih * fl (800 / of_nat (max iw ih)))\<rfloor>) \<and>
      \<bar>of_nat (fst (canvas_size iw ih)) - 800 * of_nat iw / of_nat (max iw ih)\<bar> <
        (1 + 1 / 2 ^ 42 :: rat) \<and>
      \<bar>of_nat (snd (canvas_size iw ih)) - 800 * of_nat ih / of_nat (max iw ih)\<bar> <
        (1 + 1 / 2 ^ 42 :: rat))"
proof -
  have 1: "snd (processFile env file lang w) = w" if "compressImage env file = Inl e" for e
    using that by (rule processFile_no_request)
  have 2: "\<exists>w0 h0 rest.
         load_image env file = Loaded w0 h0 \<and>
         compressImage env file =
           Inr (toDataURL env file (fst (canvas_size w0 h0)) (snd (canvas_size w0 h0))) \<and>
         issued (snd (processFile env file lang w)) =
           issued w @
           extraction_request (gptConfig w)
             (toDataURL env file (fst (canvas_size w0 h0)) (snd (canvas_size w0 h0))) # rest"
    if "issued (snd (processFile env file lang w)) \<noteq> issued w"
  proof -
    from processFile_first_request [OF that] obtain b rest where
      b: "compressImage env file = Inr b"
      and r: "issued (snd (processFile env file lang w)) =
        issued w @ extraction_request (gptConfig w) b # rest"
      by blast
    from compressImage_success [OF b] obtain w0 h0 where
      "load_image env file = Loaded w0 h0"
      "b = toDataURL env file (fst (canvas_size w0 h0)) (snd (canvas_size w0 h0))"
      by blast
    with b r show ?thesis by blast
  qed
  have 3: "canvas_size iw ih =
     (to_unsigned_long (fl (of_nat iw * image_scale iw ih)),
      to_unsigned_long (fl (of_nat ih * image_scale iw ih)))"
    by (simp add: canvas_size_def Let_def)
  have p: "(1 + 1 / 2 ^ 42 :: rat) = 1 + 1 / 4398046511104" by simp
  note 4 = canvas_size_le [of iw ih]
  note 5 = canvas_size_small [of iw ih]
  note 6 = canvas_size_large(1,2,7,8) [of iw ih]
  show ?thesis
    unfolding p using 1 2 3 4 5 6 by (intro conjI impI allI) blast+
qed

theorem image_is_downscaled_before_upload_witness:
  "compressImage (example_platform answering_network) six_megabyte_file =
     Inl (Error MSG_FILE_TOO_LARGE) \<and>
   snd (processFile (example_platform answering_network) six_megabyte_file (ascii ''fr'')
     (example_world example_config roomy_storage)) = example_world example_config roomy_storage \<and>
   issued (snd (processFile (example_platform answering_network) small_file (ascii ''fr'')
     (example_world example_config roomy_storage))) \<noteq>
     issued (example_world example_config roomy_storage) \<and>
   hd (issued (snd (processFile (example_platform answering_network) small_file (ascii ''fr'')
       (example_world example_config roomy_storage)))) =
     extraction_request example_config (example_data_url small_file 800 266) \<and>
   800 < max (1000::nat) 333 \<and> canvas_size 1000 333 = (800, 266) \<and>
   \<bar>of_nat 266 - 800 * of_nat 333 / of_nat (max 1000 333)\<bar> < (1 + 1 / 2 ^ 42 :: rat) \<and>
   max (640::nat) 480 \<le> 800 \<and> canvas_size 640 480 = (640, 480)"
proof -
  let ?env = "example_platform answering_network"
  let ?w = "example_world example_config roomy_storage"
  have c: "compressImage ?env six_megabyte_file = Inl (Error MSG_FILE_TOO_LARGE)"
    by (simp add: compressImage_def six_megabyte_file_def MAX_FILE_SIZE_def)
  have h: "processFile ?env small_file (ascii ''fr'') ?w =
     (Inr example_file_translation, snd (processFile ?env small_file (ascii ''fr'') ?w))"
    using processFile_example by (metis prod.collapse)
  from processFile_success [OF h]
  have i: "issued (snd (processFile ?env small_file (ascii ''fr'') ?w)) \<noteq> issued ?w"
    by (auto simp: example_world_def)
  have m: "800 < max (1000::nat) 333" "max (640::nat) 480 \<le> 800" by simp_all
  note a = image_is_downscaled_before_upload [of ?env six_megabyte_file "ascii ''fr''" ?w 1000 333]
  note b = image_is_downscaled_before_upload [of ?env small_file "ascii ''fr''" ?w 640 480]
  from a c have 1: "snd (processFile ?env six_megabyte_file (ascii ''fr'') ?w) = ?w"
    by blast
  from b i have 2: "hd (issued (snd (processFile ?env small_file (ascii ''fr'') ?w))) =
     extraction_request example_config (example_data_url small_file 800 266)"
    by (auto simp: compressImage_example example_world_def)
  from a m(1) have "\<bar>of_nat (snd (canvas_size 1000 333)) - 800 * of_nat 333 / of_nat (max 1000 333)\<bar>
      < (1 + 1 / 2 ^ 42 :: rat)"
    by blast
  then have 3: "\<bar>of_nat 266 - 800 * of_nat 333 / of_nat (max 1000 333)\<bar> < (1 + 1 / 2 ^ 42 :: rat)"
    by (simp only: canvas_size_example snd_conv)
  from b m(2) have 4: "canvas_size 640 480 = (640, 480)"
    by blast
  from c 1 i 2 m(1) canvas_size_example 3 m(2) 4 show ?thesis
    by (intro conjI)
qed

section \<open>The size limit\<close>

text \<open>
  Claim C9, as the specification states it: for every file whose size exceeds
  \<open>5 * 1024 * 1024\<close> bytes \<open>processFile\<close> throws "the image size must not exceed 5MB". It
  fails when no API key is configured: \<open>processFile\<close> tests the key before it looks at
  the file, and throws "Please configure the API Key first".
\<close>

theorem five_megabyte_message_counterexample:
  "5 * 1024 * 1024 < size' six_megabyte_file \<and>
   processFile (example_platform answering_network) six_megabyte_file (ascii ''fr'')
       (example_world keyless_config roomy_storage) =
     (Inl (Error MSG_CONFIGURE_KEY), example_world keyless_config roomy_storage) \<and>
   MSG_CONFIGURE_KEY \<noteq> MSG_FILE_TOO_LARGE"
  by (simp add: processFile_def six_megabyte_file_def example_world_def keyless_config_def
      MSG_CONFIGURE_KEY_def MSG_FILE_TOO_LARGE_def)

text \<open>
  Claim C9, amended. The effective image size limit is 5 MB, not the 20 MB that the upload
  handler enforces: when an API key is configured, for every file whose size exceeds
  \<open>5 * 1024 * 1024\<close> bytes \<open>processFile\<close> throws "the image size must not exceed 5MB"
  before any network request and changes nothing; the upload handler refuses a file only
  above \<open>20 * 1024 * 1024\<close> bytes, so every file between 5 MB and 20 MB passes its
  check and then fails in \<open>compressImage\<close>, and the handler shows that message.
\<close>

theorem effective_size_limit:
  assumes "apiKey (gptConfig w) \<noteq> []" and "5 * 1024 * 1024 < size' file"
  shows "compressImage env file = Inl (Error MSG_FILE_TOO_LARGE) \<and>
     processFile env file lang w = (Inl (Error MSG_FILE_TOO_LARGE), w) \<and>
     (size' file \<le> 20 * 1024 * 1024 \<longrightarrow>
        onDrop env [file] lang (ui, w) =
          (ui\<lparr>error := Some MSG_FILE_TOO_LARGE, isProcessing := False\<rparr>, w)) \<and>
     (20 * 1024 * 1024 < size' file \<longrightarrow>
        onDrop env [file] lang (ui, w) = (ui\<lparr>error := Some MSG_UPLOAD_TOO_LARGE\<rparr>, w))"
proof -
  from assms(2) have c: "compressImage env file = Inl (Error MSG_FILE_TOO_LARGE)"
    by (simp add: compressImage_def MAX_FILE_SIZE_def)
  with assms(1) have p: "processFile env file lang w = (Inl (Error MSG_FILE_TOO_LARGE), w)"
    by (simp add: processFile_def)
  from c p show ?thesis
    by (simp add: onDrop_def)
qed

theorem effective_size_limit_witness:
  "apiKey (gptConfig (example_world example_config roomy_storage)) \<noteq> [] \<and>
   5 * 1024 * 1024 < size' six_megabyte_file \<and>
   size' six_megabyte_file \<le> 20 * 1024 * 1024 \<and>
   processFile (example_platform answering_network) six_megabyte_file (ascii ''fr'')
       (example_world example_config roomy_storage) =
     (Inl (Error MSG_FILE_TOO_LARGE), example_world example_config roomy_storage) \<and>
   onDrop (example_platform answering_network) [six_megabyte_file] (ascii ''fr'')
       (idle_upload, example_world example_config roomy_storage) =
     (idle_upload\<lparr>error := Some MSG_FILE_TOO_LARGE, isProcessing := False\<rparr>,
      example_world example_config roomy_storage)"
proof -
  have k: "apiKey (gptConfig (example_world example_config roomy_storage)) \<noteq> []"
    by (simp add: example_world_def example_config_def)
  have s: "5 * 1024 * 1024 < size' six_megabyte_file"
    by (simp add: six_megabyte_file_def)
  have u: "size' six_megabyte_file \<le> 20 * 1024 * 1024"
    by (simp add: six_megabyte_file_def)
  from effective_size_limit [OF k s, of "example_platform answering_network" "ascii ''fr''" idle_upload]
    k s u
  show ?thesis by simp
qed

section \<open>Persistence\<close>

lemma getItem_setItem:
  "setItem ls key v = Some ls' \<Longrightarrow> getItem ls' k = (if k = key then Some v else getItem ls k)"
  by (auto simp: setItem_def getItem_def Let_def update_conv' split: if_splits)

lemma getItem_saveToStorage:
  "getItem (saveToStorage f key v ls) k =
     (if k = key \<and> setItem ls key (f v) \<noteq> None then Some (f v) else getItem ls k)"
  by (auto simp: saveToStorage_def getItem_setItem split: option.splits)

lemma saveToStorage_thrown:
  "setItem ls key (f v) = None \<Longrightarrow> saveToStorage f key v ls = ls"
  by (simp add: saveToStorage_def)

lemma translations_key_neq_config_key: "ascii ''translations'' \<noteq> ascii ''gptConfig''"
  by (simp add: ascii_def)

lemma setTranslations_fields [simp]:
  "translations' (setTranslations env f w) = f (translations' w)"
  "gptConfig (setTranslations env f w) = gptConfig w"
  "localStorage (setTranslations env f w) =
     saveToStorage (stringify_translations env) (ascii ''translations'') (f (translations' w))
       (localStorage w)"
  by (simp_all add: setTranslations_def Let_def)

lemma setGPTConfig_fields [simp]:
  "translations' (setGPTConfig env c w) = translations' w"
  "gptConfig (setGPTConfig env c w) = c"
  "localStorage (setGPTConfig env c w) =
     saveToStorage (stringify_config env) (ascii ''gptConfig'') c (localStorage w)"
  by (simp_all add: setGPTConfig_def)

lemma setTranslations_in_sync:
  assumes "in_sync env w"
    and "setItem (localStorage w) (ascii ''translations'')
           (stringify_translations env (f (translations' w))) \<noteq> None"
  shows "in_sync env (setTranslations env f w)"
  using assms translations_key_neq_config_key
  by (auto simp: in_sync_def getItem_saveToStorage)

text \<open>
  Claim C3, as the specification states it: after every update to the list of translations
  or to the configuration, the value stored under each of the two keys equals the JSON
  serialization of the current state. It fails when \<open>setItem\<close> throws, here because the
  quota of the store is reached: \<open>saveToStorage\<close> catches the error, the state has the
  new translation and the store still holds the empty history.
\<close>

theorem stored_history_counterexample:
  "in_sync (example_platform translating_network) (example_world example_config nearly_full_storage) \<and>
   translations' (addTranslation (example_platform translating_network) example_text_translation
      (example_world example_config nearly_full_storage)) = [example_text_translation] \<and>
   getItem (localStorage (addTranslation (example_platform translating_network)
      example_text_translation (example_world example_config nearly_full_storage)))
      (ascii ''translations'') = Some (ascii ''[]'') \<and>
   stringify_translations (example_platform translating_network) [example_text_translation] \<noteq>
     ascii ''[]''"
proof -
  have s: "in_sync (example_platform translating_network) (example_world example_config nearly_full_storage)"
    by (simp add: in_sync_def example_world_def nearly_full_storage_def getItem_def
        example_platform_fields json_of_translations_def ascii_def)
  have n: "json_of_translations [example_text_translation] \<noteq> ascii ''[]''"
    by (simp add: json_of_translations_def json_of_translation_def ascii_def)
  have u: "setItem nearly_full_storage (ascii ''translations'')
      (json_of_translations [example_text_translation]) = None"
    by (simp add: setItem_def nearly_full_storage_def usage_def Let_def json_of_translations_def
        json_of_translation_def json_property_def json_string_def json_of_config_def
        example_text_translation_def example_config_def TEXT_TRANSLATION_NAME_def
        escape_unit_def is_high_surrogate_def is_low_surrogate_def ascii_def)
  have g: "getItem nearly_full_storage (ascii ''translations'') = Some (ascii ''[]'')"
    by (simp add: getItem_def nearly_full_storage_def)
  from s n u g show ?thesis
    by (simp add: addTranslation_def example_platform_fields example_world_def
        saveToStorage_thrown)
qed

text \<open>
  Claim C3, amended. Translation history and API credentials persist in browser local
  storage: after every update to the list of translations (\<open>addTranslation\<close>,
  \<open>removeTranslation\<close>) or to the configuration (\<open>updateGPTConfig\<close>) for which
  \<open>setItem\<close> does not throw, the value stored under the key of the updated value,
  \<open>translations\<close> or \<open>gptConfig\<close>, equals the serialization of the current state, and a
  store that agreed with the state before the update agrees with it after; no operation
  writes any other key. When \<open>setItem\<close> throws, the state is updated and the store is
  left as it was.
\<close>

theorem storage_follows_state:
  "(setItem (localStorage w) (ascii ''translations'')
        (stringify_translations env (f (translations' w))) \<noteq> None \<longrightarrow>
      getItem (localStorage (setTranslations env f w)) (ascii ''translations'') =
        Some (stringify_translations env (translations' (setTranslations env f w))) \<and>
      (in_sync env w \<longrightarrow> in_sync env (setTranslations env f w))) \<and>
   (setItem (localStorage w) (ascii ''translations'')
        (stringify_translations env (f (translations' w))) = None \<longrightarrow>
      translations' (setTranslations env f w) = f (translations' w) \<and>
      localStorage (setTranslations env f w) = localStorage w) \<and>
   (\<forall>k. k \<noteq> ascii ''translations'' \<longrightarrow>
      getItem (localStorage (setTranslations env f w)) k = getItem (localStorage w) k) \<and>
   addTranslation env t = setTranslations env (\<lambda>prev. t # prev) \<and>
   removeTranslation env i = setTranslations env (\<lambda>prev. filter (\<lambda>t. id' t \<noteq> i) prev) \<and>
   (setItem (localStorage w) (ascii ''gptConfig'')
        (stringify_config env (gptConfig (updateGPTConfig env c w))) \<noteq> None \<longrightarrow>
      getItem (localStorage (updateGPTConfig env c w)) (ascii ''gptConfig'') =
        Some (stringify_config env (gptConfig (updateGPTConfig env c w))) \<and>
      (in_sync env w \<longrightarrow> in_sync env (updateGPTConfig env c w))) \<and>
   (setItem (localStorage w) (ascii ''gptConfig'')
        (stringify_config env (gptConfig (updateGPTConfig env c w))) = None \<longrightarrow>
      gptConfig (updateGPTConfig env c w) = c\<lparr>baseUrl := strip_final_slash (baseUrl c)\<rparr> \<and>
      localStorage (updateGPTConfig env c w) = localStorage w) \<and>
   (\<forall>k. k \<noteq> ascii ''gptConfig'' \<longrightarrow>
      getItem (localStorage (updateGPTConfig env c w)) k = getItem (localStorage w) k) \<and>
   (\<forall>k. k \<noteq> ascii ''translations'' \<longrightarrow>
      getItem (localStorage (snd (processText env input lang w))) k = getItem (localStorage w) k \<and>
      getItem (localStorage (snd (processFile env img lang w))) k = getItem (localStorage w) k)"
proof -
  have 1: "getItem (localStorage (setTranslations env f w)) (ascii ''translations'') =
        Some (stringify_translations env (translations' (setTranslations env f w)))"
    if "setItem (localStorage w) (ascii ''translations'')
        (stringify_translations env (f (translations' w))) \<noteq> None"
    using that by (simp add: getItem_saveToStorage)
  have 2: "getItem (localStorage (setTranslations env g w)) k = getItem (localStorage w) k"
    if "k \<noteq> ascii ''translations''" for k g
    using that by (simp add: getItem_saveToStorage)
  have 3: "getItem (localStorage (updateGPTConfig env c w)) (ascii ''gptConfig'') =
        Some (stringify_config env (gptConfig (updateGPTConfig env c w)))"
    if "setItem (localStorage w) (ascii ''gptConfig'')
        (stringify_config env (gptConfig (updateGPTConfig env c w))) \<noteq> None"
    using that by (simp add: updateGPTConfig_def getItem_saveToStorage)
  have 4: "in_sync env (updateGPTConfig env c w)"
    if "setItem (localStorage w) (ascii ''gptConfig'')
        (stringify_config env (gptConfig (updateGPTConfig env c w))) \<noteq> None" "in_sync env w"
    using that translations_key_neq_config_key
    by (auto simp: updateGPTConfig_def in_sync_def getItem_saveToStorage)
  have 5: "getItem (localStorage (updateGPTConfig env c w)) k = getItem (localStorage w) k"
    if "k \<noteq> ascii ''gptConfig''" for k
    using that by (simp add: updateGPTConfig_def getItem_saveToStorage)
  have 6: "getItem (localStorage (snd (processText env input lang w))) k = getItem (localStorage w) k"
    if "k \<noteq> ascii ''translations''" for k
  proof (cases "fst (processText env input lang w)")
    case (Inl e)
    then have "processText env input lang w = (Inl e, snd (processText env input lang w))"
      by (metis prod.collapse)
    from processText_failure [OF this] show ?thesis by simp
  next
    case (Inr t)
    then have "processText env input lang w = (Inr t, snd (processText env input lang w))"
      by (metis prod.collapse)
    from processText_success [OF this] that show ?thesis
      by (auto simp: addTranslation_def getItem_saveToStorage)
  qed
  have 7: "getItem (localStorage (snd (processFile env img lang w))) k = getItem (localStorage w) k"
    if "k \<noteq> ascii ''translations''" for k
  proof (cases "fst (processFile env img lang w)")
    case (Inl e)
    then have "processFile env img lang w = (Inl e, snd (processFile env img lang w))"
      by (metis prod.collapse)
    from processFile_failure [OF this] show ?thesis by simp
  next
    case (Inr t)
    then have "processFile env img lang w = (Inr t, snd (processFile env img lang w))"
      by (metis prod.collapse)
    from processFile_success [OF this] that show ?thesis
      by (auto simp: addTranslation_def getItem_saveToStorage)
  qed
  have 8: "addTranslation env t = setTranslations env (\<lambda>prev. t # prev)"
    by (simp add: addTranslation_def)
  have 9: "removeTranslation env i = setTranslations env (\<lambda>prev. filter (\<lambda>t. id' t \<noteq> i) prev)"
    by (simp add: removeTranslation_def)
  have 10: "gptConfig (updateGPTConfig env c w) = c\<lparr>baseUrl := strip_final_slash (baseUrl c)\<rparr>"
    by (simp add: updateGPTConfig_def)
  have 11: "localStorage (updateGPTConfig env c w) = localStorage w"
    if "setItem (localStorage w) (ascii ''gptConfig'')
        (stringify_config env (gptConfig (updateGPTConfig env c w))) = None"
    using that by (simp add: updateGPTConfig_def saveToStorage_thrown)
  have 12: "localStorage (setTranslations env f w) = localStorage w"
    if "setItem (localStorage w) (ascii ''translations'')
        (stringify_translations env (f (translations' w))) = None"
    using that by (simp add: saveToStorage_thrown)
  show ?thesis
    using 1 2 3 4 5 6 7 8 9 10 11 12 setTranslations_in_sync [of env w f]
    by (intro conjI impI allI) simp_all
qed

theorem storage_follows_state_witness:
  "in_sync (example_platform translating_network) (example_world example_config synced_storage) \<and>
   setItem synced_storage (ascii ''translations'')
     (json_of_translations [example_text_translation]) \<noteq> None \<and>
   in_sync (example_platform translating_network)
     (addTranslation (example_platform translating_network) example_text_translation
        (example_world example_config synced_storage)) \<and>
   setItem nearly_full_storage (ascii ''translations'')
     (json_of_translations [example_text_translation]) = None \<and>
   localStorage (addTranslation (example_platform translating_network) example_text_translation
        (example_world example_config nearly_full_storage)) = nearly_full_storage \<and>
   setItem synced_storage (ascii ''gptConfig'')
     (json_of_config (slash_config\<lparr>baseUrl := ascii ''https://api.example.org''\<rparr>)) \<noteq> None \<and>
   in_sync (example_platform translating_network)
     (updateGPTConfig (example_platform translating_network) slash_config
        (example_world example_config synced_storage)) \<and>
   getItem (localStorage (updateGPTConfig (example_platform translating_network) slash_config
        (example_world example_config synced_storage))) (ascii ''translations'') = Some (ascii ''[]'')"
proof -
  let ?env = "example_platform translating_network"
  let ?w = "example_world example_config synced_storage"
  let ?v = "example_world example_config nearly_full_storage"
  have s: "in_sync ?env ?w"
    by (simp add: in_sync_def example_world_def synced_storage_def getItem_def
        example_platform_fields json_of_translations_def ascii_def)
  have u: "setItem synced_storage (ascii ''translations'')
      (json_of_translations [example_text_translation]) \<noteq> None"
    by (simp add: setItem_def synced_storage_def usage_def Let_def json_of_translations_def
        json_of_translation_def json_property_def json_string_def json_of_config_def
        example_text_translation_def example_config_def TEXT_TRANSLATION_NAME_def
        escape_unit_def is_high_surrogate_def is_low_surrogate_def ascii_def)
  have n: "setItem nearly_full_storage (ascii ''translations'')
      (json_of_translations [example_text_translation]) = None"
    by (simp add: setItem_def nearly_full_storage_def usage_def Let_def json_of_translations_def
        json_of_translation_def json_property_def json_string_def json_of_config_def
        example_text_translation_def example_config_def TEXT_TRANSLATION_NAME_def
        escape_unit_def is_high_surrogate_def is_low_surrogate_def ascii_def)
  have st: "strip_final_slash (baseUrl slash_config) = ascii ''https://api.example.org''"
    by (simp add: strip_final_slash_def slash_config_def ascii_def)
  have c: "setItem synced_storage (ascii ''gptConfig'')
      (json_of_config (slash_config\<lparr>baseUrl := ascii ''https://api.example.org''\<rparr>)) \<noteq> None"
    by (simp add: setItem_def synced_storage_def usage_def Let_def json_property_def
        json_string_def json_of_config_def slash_config_def example_config_def
        escape_unit_def is_high_surrogate_def is_low_surrogate_def ascii_def)
  have g: "getItem synced_storage (ascii ''translations'') = Some (ascii ''[]'')"
    by (simp add: getItem_def synced_storage_def)
  have w: "localStorage ?w = synced_storage" "translations' ?w = []"
      "localStorage ?v = nearly_full_storage" "translations' ?v = []"
    by (simp_all add: example_world_def)
  have cfg: "gptConfig (updateGPTConfig ?env slash_config ?w) =
      slash_config\<lparr>baseUrl := ascii ''https://api.example.org''\<rparr>"
    by (simp add: updateGPTConfig_def st)
  note a = storage_follows_state [of ?w ?env "\<lambda>prev. example_text_translation # prev"
      example_text_translation _ slash_config]
  note b = storage_follows_state [of ?v ?env "\<lambda>prev. example_text_translation # prev"
      example_text_translation _ slash_config]
  from a s u have 1: "in_sync ?env (addTranslation ?env example_text_translation ?w)"
    by (simp add: w example_platform_fields)
  from b n have 2: "localStorage (addTranslation ?env example_text_translation ?v) = nearly_full_storage"
    by (simp add: w example_platform_fields)
  from a s c have 3: "in_sync ?env (updateGPTConfig ?env slash_config ?w)"
    by (simp add: w cfg example_platform_fields)
  from a g translations_key_neq_config_key
  have 4: "getItem (localStorage (updateGPTConfig ?env slash_config ?w)) (ascii ''translations'') =
      Some (ascii ''[]'')"
    by (simp add: w)
  from s u 1 n 2 c 3 4 show ?thesis
    by (intro conjI)
qed

section \<open>The history\<close>

text \<open>
  Claim C10. History operations preserve the rest of the list: \<open>addTranslation\<close> puts
  the new record in front of the previous entries, which follow unchanged and in the same
  order; \<open>removeTranslation\<close> removes exactly the entries whose id equals the argument
  and keeps all other entries unchanged and in order; removing an id that is not present
  leaves the list identical.
\<close>

theorem history_operations_keep_the_rest:
  "translations' (addTranslation env t w) = t # translations' w \<and>
   subseq (translations' (removeTranslation env i w)) (translations' w) \<and>
   filter (\<lambda>x. id' x \<noteq> i) (translations' (removeTranslation env i w)) =
     filter (\<lambda>x. id' x \<noteq> i) (translations' w) \<and>
   filter (\<lambda>x. id' x = i) (translations' (removeTranslation env i w)) = [] \<and>
   (i \<notin> id' ` set (translations' w) \<longrightarrow>
      translations' (removeTranslation env i w) = translations' w)"
proof -
  have r: "translations' (removeTranslation env i w) = filter (\<lambda>x. id' x \<noteq> i) (translations' w)"
    by (simp add: removeTranslation_def setTranslations_def Let_def)
  have a: "translations' (addTranslation env t w) = t # translations' w"
    by (simp add: addTranslation_def setTranslations_def Let_def)
  have n: "i \<notin> id' ` set (translations' w) \<longrightarrow>
      filter (\<lambda>x. id' x \<noteq> i) (translations' w) = translations' w"
    by (auto simp: filter_id_conv)
  show ?thesis unfolding r a using n by (simp add: filter_empty_conv)
qed

theorem history_operations_keep_the_rest_witness:
  "ascii ''3'' \<notin> id' ` set (translations' history_world) \<and>
   translations' (removeTranslation (example_platform translating_network) (ascii ''3'') history_world) =
     [example_translation (ascii ''1''), example_translation (ascii ''2'')]"
  using history_operations_keep_the_rest
    [of "example_platform translating_network" _ history_world "ascii ''3''"]
  by (simp add: history_world_def example_translation_def ascii_def)

section \<open>Synchronized scrolling\<close>

lemma syncScroll_fields [simp]:
  "scrollHeight (syncScroll s t) = scrollHeight t"
  "clientHeight (syncScroll s t) = clientHeight t"
  "scroll_range (syncScroll s t) = scroll_range t"
  by (simp_all add: syncScroll_def set_scrollTop_def scroll_range_def Let_def)

lemma syncScroll_value:
  assumes "scroll_range s \<noteq> 0"
  shows "scrollTop (syncScroll s t) =
     min (max (fl (fl (scrollTop s / scroll_range s) * scroll_range t)) 0) (max 0 (scroll_range t))"
  using assms
  by (simp add: syncScroll_def relative_position_def js_divide_def js_times_def
      set_scrollTop_def Let_def)

lemma syncScroll_no_range:
  assumes "scroll_range s = 0"
  shows "scrollTop (syncScroll s t) = 0"
  using assms
  by (simp add: syncScroll_def relative_position_def js_divide_def js_times_def
      set_scrollTop_def Let_def)

lemma syncScroll_error:
  assumes R: "0 < scroll_range s" and st: "0 \<le> scrollTop s" "scrollTop s \<le> scroll_range s"
    and T: "0 \<le> scroll_range t"
  shows "\<bar>scrollTop (syncScroll s t) - scrollTop s * scroll_range t / scroll_range s\<bar> \<le>
     (scrollTop s * scroll_range t / scroll_range s) / 2 ^ 51"
proof -
  define q where "q = scrollTop s / scroll_range s"
  define e where "e = q * scroll_range t"
  define p where "p = fl q"
  define v where "v = fl (p * scroll_range t)"
  have q0: "0 \<le> q" using R st(1) by (simp add: q_def)
  have q1: "q \<le> 1" using R st(2) by (simp add: q_def)
  have e0: "0 \<le> e" using q0 T by (simp add: e_def)
  have "e \<le> 1 * scroll_range t" unfolding e_def using q1 T by (intro mult_right_mono)
  then have eT: "e \<le> scroll_range t" by simp
  have ee: "scrollTop s * scroll_range t / scroll_range s = e" by (simp add: e_def q_def)
  have top: "scrollTop (syncScroll s t) = min (max v 0) (max 0 (scroll_range t))"
    using R by (simp add: syncScroll_value v_def p_def q_def)
  have n: "(2::rat) ^ 51 = 2251799813685248" by simp
  have ve: "\<bar>v - e\<bar> \<le> e / 2251799813685248"
  proof (cases "q = 0 \<or> scroll_range t = 0")
    case True
    then have "v = 0" "e = 0" by (auto simp: v_def p_def e_def)
    then show ?thesis by simp
  next
    case False
    with q0 T have qp: "0 < q" and Tp: "0 < scroll_range t" by simp_all
    from fl_bounds [OF qp] have pb: "q - q / 9007199254740992 \<le> p" "p \<le> q + q / 9007199254740992"
      by (simp_all add: p_def)
    then have pq: "\<bar>p - q\<bar> \<le> q / 9007199254740992" by (simp only: abs_le_iff) linarith
    define y where "y = p * scroll_range t"
    have "\<bar>y - e\<bar> = \<bar>p - q\<bar> * scroll_range t"
      using Tp by (simp add: y_def e_def left_diff_distrib [symmetric] abs_mult)
    also have "\<dots> \<le> (q / 9007199254740992) * scroll_range t"
      using pq Tp by (intro mult_right_mono) simp_all
    also have "\<dots> = e / 9007199254740992" by (simp add: e_def)
    finally have "\<bar>y - e\<bar> \<le> e / 9007199254740992" .
    then have "y - e \<le> e / 9007199254740992" "- (y - e) \<le> e / 9007199254740992"
      by (simp_all only: abs_le_iff)
    then have yb: "e - e / 9007199254740992 \<le> y" "y \<le> e + e / 9007199254740992"
      by linarith+
    have p0: "0 < p" using pb(1) qp by linarith
    then have y0: "0 < y" using Tp by (simp add: y_def)
    from fl_bounds [OF y0] have vb: "y - y / 9007199254740992 \<le> v" "v \<le> y + y / 9007199254740992"
      by (simp_all add: v_def y_def)
    have "v - e \<le> e / 2251799813685248" "- (v - e) \<le> e / 2251799813685248"
      using vb yb e0 by linarith+
    then show ?thesis by (simp only: abs_le_iff)
  qed
  then have "v - e \<le> e / 2251799813685248" "- (v - e) \<le> e / 2251799813685248"
    by (simp_all only: abs_le_iff)
  with e0 eT T have "min (max v 0) (max 0 (scroll_range t)) - e \<le> e / 2251799813685248"
    "- (min (max v 0) (max 0 (scroll_range t)) - e) \<le> e / 2251799813685248"
    by linarith+
  then have "\<bar>min (max v 0) (max 0 (scroll_range t)) - e\<bar> \<le> e / 2251799813685248"
    by (simp only: abs_le_iff)
  then show ?thesis unfolding ee top n .
qed

lemma syncScroll_relative_error:
  assumes R: "0 < scroll_range s" and st: "0 \<le> scrollTop s" "scrollTop s \<le> scroll_range s"
    and T: "0 < scroll_range t"
  shows "\<bar>scrollTop (syncScroll s t) / scroll_range t - scrollTop s / scroll_range s\<bar> \<le>
     (scrollTop s / scroll_range s) / 2 ^ 51"
proof -
  have T0: "0 \<le> scroll_range t" using T by simp
  define c where "c = scrollTop (syncScroll s t)"
  define q where "q = scrollTop s / scroll_range s"
  have e: "scrollTop s * scroll_range t / scroll_range s = q * scroll_range t"
    by (simp add: q_def)
  from syncScroll_error [OF R st T0]
  have "\<bar>c - q * scroll_range t\<bar> \<le> (q * scroll_range t) / 2 ^ 51"
    unfolding e c_def .
  then have "\<bar>c - q * scroll_range t\<bar> / scroll_range t \<le> ((q * scroll_range t) / 2 ^ 51) / scroll_range t"
    using T by (intro divide_right_mono) simp_all
  moreover have "\<bar>c - q * scroll_range t\<bar> / scroll_range t = \<bar>c / scroll_range t - q\<bar>"
  proof -
    have "c / scroll_range t - q = (c - q * scroll_range t) / scroll_range t"
      using T by (simp add: diff_divide_distrib)
    then show ?thesis using T by (simp add: abs_divide)
  qed
  moreover have "((q * scroll_range t) / 2 ^ 51) / scroll_range t = q / 2 ^ 51"
    using T by simp
  ultimately show ?thesis unfolding c_def q_def by simp
qed

lemma scroll_examples:
  "relative_position fitting_pane = NaN"
  "syncScroll fitting_pane scrolled_pane = scrolled_pane\<lparr>scrollTop := 0\<rparr>"
  "relative_position (scrolled_pane\<lparr>scrollTop := 0\<rparr>) = Finite 0"
  "scrollTop (syncScroll tenth_pane short_pane) = 1351079888211149 / 4503599627370496"
  "relative_position (syncScroll tenth_pane short_pane) = Finite (7205759403792795 / 72057594037927936)"
  "relative_position tenth_pane = Finite (3602879701896397 / 36028797018963968)"
  "scrollTop (syncScroll halfway_pane scrolled_pane) = 50"
  by code_simp+

text \<open>
  Claim C7, as the specification states it: whenever one pane scrolls, the other pane's
  \<open>scrollTop\<close> is set to the source's \<open>scrollTop\<close> divided by its scroll range and
  multiplied by the target's scroll range, so that both panes always show the same relative
  scroll position. It fails when the pane that scrolls has no scroll range: the quotient is
  \<open>0 / 0\<close>, which is \<open>NaN\<close>, and the other pane, scrolled by 50 of its 100 pixels, is
  sent to the top. It also fails by rounding: from a pane scrolled by 1 of 10 pixels, a pane
  with a scroll range of 3 pixels gets 0.30000000000000004, not 0.3, and its relative
  position is not that of the source.
\<close>

theorem same_relative_position_counterexample:
  "relative_position (originalElement fitting_viewer) = NaN \<and>
   scrollTop (translatedElement fitting_viewer) = 50 \<and>
   scrollTop (translatedElement (handleOriginalScroll fitting_viewer)) = 0 \<and>
   relative_position (translatedElement (handleOriginalScroll fitting_viewer)) \<noteq>
     relative_position (originalElement fitting_viewer) \<and>
   scrollTop (syncScroll tenth_pane short_pane) = 1351079888211149 / 4503599627370496 \<and>
   (1351079888211149 / 4503599627370496 :: rat) \<noteq> 1 / 10 * 3 \<and>
   relative_position (syncScroll tenth_pane short_pane) \<noteq> relative_position tenth_pane"
proof -
  have o: "originalElement fitting_viewer = fitting_pane"
    and t: "translatedElement fitting_viewer = scrolled_pane"
    and h: "translatedElement (handleOriginalScroll fitting_viewer) = scrolled_pane\<lparr>scrollTop := 0\<rparr>"
    by (simp_all add: fitting_viewer_def handleOriginalScroll_def scroll_examples(2))
  show ?thesis
    unfolding o t h scroll_examples by (simp add: scrolled_pane_def)
qed

text \<open>
  Claim C7, amended. Original and translated text panes scroll synchronously, in both
  directions: whenever one pane scrolls, the other pane's \<open>scrollTop\<close> is assigned the
  source's \<open>scrollTop\<close> divided by its scroll range and multiplied by the target's scroll
  range, computed in double arithmetic. When the pane that scrolls has a scroll range and
  its \<open>scrollTop\<close> lies within it, the other pane comes to the same relative scroll
  position up to rounding: its \<open>scrollTop\<close> differs from the exact value by at most the
  \<open>2^51\<close>th part of that value, and so does its relative position from that of the
  source. When the pane that scrolls has no scroll range, the other pane's \<open>scrollTop\<close>
  becomes 0.
\<close>

theorem panes_scroll_together:
  "translatedElement (handleOriginalScroll v) = syncScroll (originalElement v) (translatedElement v) \<and>
   originalElement (handleOriginalScroll v) = originalElement v \<and>
   originalElement (handleTranslatedScroll v) = syncScroll (translatedElement v) (originalElement v) \<and>
   translatedElement (handleTranslatedScroll v) = translatedElement v \<and>
   scrollHeight (syncScroll s t) = scrollHeight t \<and>
   clientHeight (syncScroll s t) = clientHeight t \<and>
   (scroll_range s \<noteq> 0 \<longrightarrow>
      scrollTop (syncScroll s t) =
        min (max (fl (fl (scrollTop s / scroll_range s) * scroll_range t)) 0)
          (max 0 (scroll_range t))) \<and>
   (scroll_range s = 0 \<longrightarrow> scrollTop (syncScroll s t) = 0) \<and>
   (0 < scroll_range s \<and> 0 \<le> scrollTop s \<and> scrollTop s \<le> scroll_range s \<and>
    0 \<le> scroll_range t \<longrightarrow>
      \<bar>scrollTop (syncScroll s t) - scrollTop s * scroll_range t / scroll_range s\<bar> \<le>
        (scrollTop s * scroll_range t / scroll_range s) / 2 ^ 51) \<and>
   (0 < scroll_range s \<and> 0 \<le> scrollTop s \<and> scrollTop s \<le> scroll_range s \<and>
    0 < scroll_range t \<longrightarrow>
      \<bar>scrollTop (syncScroll s t) / scroll_range t - scrollTop s / scroll_range s\<bar> \<le>
        (scrollTop s / scroll_range s) / 2 ^ 51)"
  using syncScroll_value [of s t] syncScroll_no_range [of s t] syncScroll_error [of s t]
    syncScroll_relative_error [of s t]
  by (simp add: handleOriginalScroll_def handleTranslatedScroll_def)

theorem panes_scroll_together_witness:
  "0 < scroll_range halfway_pane \<and> 0 \<le> scrollTop halfway_pane \<and>
   scrollTop halfway_pane \<le> scroll_range halfway_pane \<and> 0 < scroll_range scrolled_pane \<and>
   translatedElement (handleOriginalScroll halfway_viewer) = syncScroll halfway_pane scrolled_pane \<and>
   scrollTop (syncScroll halfway_pane scrolled_pane) = 50 \<and>
   \<bar>scrollTop (syncScroll halfway_pane scrolled_pane) / scroll_range scrolled_pane -
      scrollTop halfway_pane / scroll_range halfway_pane\<bar> \<le>
     (scrollTop halfway_pane / scroll_range halfway_pane) / 2 ^ 51 \<and>
   scroll_range fitting_pane = 0 \<and> scrollTop (syncScroll fitting_pane scrolled_pane) = 0"
proof -
  have r: "0 < scroll_range halfway_pane" "0 \<le> scrollTop halfway_pane"
      "scrollTop halfway_pane \<le> scroll_range halfway_pane" "0 < scroll_range scrolled_pane"
      "scroll_range fitting_pane = 0"
    by (simp_all add: scroll_range_def halfway_pane_def scrolled_pane_def fitting_pane_def)
  have v: "originalElement halfway_viewer = halfway_pane"
      "translatedElement halfway_viewer = scrolled_pane"
    by (simp_all add: halfway_viewer_def)
  note a = panes_scroll_together [of halfway_viewer halfway_pane scrolled_pane]
  note b = panes_scroll_together [of halfway_viewer fitting_pane scrolled_pane]
  from a have 1: "translatedElement (handleOriginalScroll halfway_viewer) =
      syncScroll halfway_pane scrolled_pane"
    unfolding v by blast
  from a r have 2: "\<bar>scrollTop (syncScroll halfway_pane scrolled_pane) / scroll_range scrolled_pane -
      scrollTop halfway_pane / scroll_range halfway_pane\<bar> \<le>
     (scrollTop halfway_pane / scroll_range halfway_pane) / 2 ^ 51"
    by blast
  from b r(5) have 3: "scrollTop (syncScroll fitting_pane scrolled_pane) = 0"
    by blast
  from r(1-4) 1 scroll_examples(7) 2 r(5) 3 show ?thesis
    by (intro conjI)
qed

end
